theory Spec2Isabelle
  imports Complex_Main "HOL-Library.Sublist"
begin

section \<open>Conventions of the embedding\<close>

text \<open>
  The four programs of the repository drive an external audio engine: they measure a
  file, build a textual filter chain from the measurements and the user's choices, and
  run the engine twice. The embedding follows the Python text:

  \<^item> a Python \<open>str\<close> is a \<open>string\<close>; a character outside ASCII is written as its UTF-8
    bytes, which keeps equality of strings and leaves the removal of spaces and line
    feeds unchanged (neither byte occurs inside a multi-byte sequence);
  \<^item> a Python \<open>float\<close> is a \<open>real\<close>: the comparisons of the programs are against
    constants that are exact in binary, and the sums that are compared
    (\<open>loudness + 16\<close>, \<open>TARGET_LUFS - 10\<close>) are exact in the range where the comparison
    can change; infinities and NaN are outside the model;
  \<^item> the conversion of a float to text inside an f-string is a parameter \<open>fmt\<close>, and the
    conversions \<open>float(s)\<close> and \<open>int(s)\<close> of text to numbers are parameters returning
    \<open>None\<close> where Python raises \<open>ValueError\<close>. Where Python rounds a result
    (\<open>1.5 + (1 - 3) * 0.6\<close>), the number given to \<open>fmt\<close> here is the exact one; no
    statement depends on the digits printed for such a number;
  \<^item> a dictionary that a function builds with fixed keys and hands on is a record; a
    dictionary that is looked up with a key from outside is an association list, with
    \<open>d[k]\<close> and \<open>d.get(k, default)\<close> kept apart;
  \<^item> an exception is a value \<open>Inl e\<close> of a sum type;
  \<^item> names are the source's. A leading underscore is dropped, and a parameter that bears
    the name of a field of the analysis record is shortened (\<open>dyn_range\<close>, \<open>nfloor\<close>,
    \<open>hf_energy\<close>).
\<close>

datatype py_error =
    KeyError
  | FileNotFoundError string
  | RuntimeError string
  | Exception string
  | SubprocessError
  | OSError

subsection \<open>Python primitives\<close>

text \<open>\<open>sep.join(xs)\<close>.\<close>

fun py_join :: "string \<Rightarrow> string list \<Rightarrow> string" where
  "py_join sep [] = []"
| "py_join sep [x] = x"
| "py_join sep (x # y # ys) = x @ sep @ py_join sep (y # ys)"

text \<open>
  \<open>s.replace("\n", "").replace(" ", "")\<close>: every line feed is deleted, then every space.
\<close>

definition remove_newlines_spaces :: "string \<Rightarrow> string" where
  "remove_newlines_spaces s =
     filter (\<lambda>c. c \<noteq> CHR '' '') (filter (\<lambda>c. c \<noteq> CHR 0x0A) s)"

text \<open>\<open>d[k]\<close> raises \<open>KeyError\<close> on a missing key, \<open>d.get(k, default)\<close> does not.\<close>

definition py_index :: "('k \<times> 'v) list \<Rightarrow> 'k \<Rightarrow> py_error + 'v" where
  "py_index d k = (case map_of d k of None \<Rightarrow> Inl KeyError | Some v \<Rightarrow> Inr v)"

definition py_get :: "('k \<times> 'v) list \<Rightarrow> 'k \<Rightarrow> 'v \<Rightarrow> 'v" where
  "py_get d k dflt = (case map_of d k of None \<Rightarrow> dflt | Some v \<Rightarrow> v)"

text \<open>\<open>str(n)\<close> of an integer, as an f-string prints it.\<close>

function str_digits :: "int \<Rightarrow> string" where
  "str_digits n =
     (if n < 10 then [''0123456789'' ! nat n]
      else str_digits (n div 10) @ [''0123456789'' ! nat (n mod 10)])"
  by pat_completeness auto
termination
  by (relation "measure nat") auto

declare str_digits.simps [simp del]

definition str_int :: "int \<Rightarrow> string" where
  "str_int i = (if i < 0 then CHR ''-'' # str_digits (- i) else str_digits i)"

text \<open>
  \<open>str(x)\<close> of a float whose shortest decimal form has one fractional digit (\<open>-16.0\<close>,
  \<open>1.5\<close>, \<open>-23.7\<close>): the module constants and the numbers in the engine's summaries are
  of this kind. It instantiates \<open>fmt\<close> in the closed statements, which use it on such
  values only; on any other real it cuts after the first fractional digit, where Python
  prints more.
\<close>

definition str_float1 :: "real \<Rightarrow> string" where
  "str_float1 x =
     (let t = \<lfloor>\<bar>x\<bar> * 10\<rfloor>
      in (if x < 0 then ''-'' else []) @ str_digits (t div 10) @ ''.''
         @ str_digits (t mod 10))"

text \<open>A line break inside a triple-quoted literal, and the indentation that follows it.\<close>

definition nl :: string where
  "nl = [CHR 0x0A]"

definition indent :: "nat \<Rightarrow> string" where
  "indent n = replicate n (CHR '' '')"

section \<open>The dubbing enhancer (ProfessionalVocalProcessor)\<close>

subsection \<open>The analysis dictionary\<close>

text \<open>
  \<open>analyze_audio_quality\<close> creates the dictionary with all thirteen keys and only ever
  assigns to them, so the dictionary is a record.
\<close>

record analysis =
  format :: string
  is_lossless :: bool
  bitrate :: int
  sample_rate :: int
  channels :: int
  duration :: real
  loudness :: real
  dynamic_range :: real
  noise_floor :: real
  gender :: string
  high_freq_energy :: real
  volume_level :: real
  quality_score :: real

subsection \<open>calculate_quality_score\<close>

definition calculate_quality_score :: "analysis \<Rightarrow> real" where
  "calculate_quality_score a =
     (let score = 50;
          score = (if is_lossless a then score + 15
                   else if bitrate a \<ge> 320 then score + 10
                   else if bitrate a \<ge> 192 then score + 5
                   else score);
          score = (if sample_rate a \<ge> 48000 then score + 5 else score);
          score = (if \<bar>loudness a + 16\<bar> \<le> 2 then score + 10
                   else if \<bar>loudness a + 16\<bar> \<le> 4 then score + 5
                   else score);
          score = (if dynamic_range a \<ge> 15 then score + 10
                   else if dynamic_range a \<ge> 12 then score + 5
                   else score);
          score = (if noise_floor a \<le> - 55 then score + 10
                   else if noise_floor a \<le> - 45 then score + 5
                   else score)
      in min score 100)"

text \<open>The additive formula in the words of the specification, one bonus per dimension.\<close>

definition format_bonus_spec :: "analysis \<Rightarrow> real" where
  "format_bonus_spec a =
     (if is_lossless a then 15 else if 320 \<le> bitrate a then 10
      else if 192 \<le> bitrate a then 5 else 0)"

definition sample_rate_bonus_spec :: "analysis \<Rightarrow> real" where
  "sample_rate_bonus_spec a = (if 48000 \<le> sample_rate a then 5 else 0)"

definition loudness_bonus_spec :: "analysis \<Rightarrow> real" where
  "loudness_bonus_spec a =
     (if \<bar>loudness a - (- 16)\<bar> \<le> 2 then 10
      else if \<bar>loudness a - (- 16)\<bar> \<le> 4 then 5 else 0)"

definition dynamic_range_bonus_spec :: "analysis \<Rightarrow> real" where
  "dynamic_range_bonus_spec a =
     (if 15 \<le> dynamic_range a then 10 else if 12 \<le> dynamic_range a then 5 else 0)"

definition noise_floor_bonus_spec :: "analysis \<Rightarrow> real" where
  "noise_floor_bonus_spec a =
     (if noise_floor a \<le> - 55 then 10 else if noise_floor a \<le> - 45 then 5 else 0)"

definition quality_score_spec :: "analysis \<Rightarrow> real" where
  "quality_score_spec a =
     min 100 (50 + format_bonus_spec a + sample_rate_bonus_spec a + loudness_bonus_spec a
                 + dynamic_range_bonus_spec a + noise_floor_bonus_spec a)"

subsection \<open>The names of the user interface\<close>

text \<open>
  The presets \<open>preset_news\<close> (news broadcast), \<open>preset_documentary\<close>,
  \<open>preset_advert\<close> and \<open>preset_general\<close> of \<open>preset_combo\<close>, and the three
  noise-reduction tiers of \<open>noise_combo\<close> (light, medium, heavy), cut before the
  full-width parenthesis by \<open>start_professional_processing\<close>.
\<close>

definition preset_news :: string where
  "preset_news = [CHR 0xE6, CHR 0x96, CHR 0xB0, CHR 0xE9, CHR 0x97, CHR 0xBB,
     CHR 0xE6, CHR 0x92, CHR 0xAD, CHR 0xE6, CHR 0x8A, CHR 0xA5]"

definition preset_documentary :: string where
  "preset_documentary = [CHR 0xE7, CHR 0xBA, CHR 0xAA, CHR 0xE5, CHR 0xBD, CHR 0x95,
     CHR 0xE7, CHR 0x89, CHR 0x87, CHR 0xE8, CHR 0xA7, CHR 0xA3, CHR 0xE8, CHR 0xAF, CHR 0xB4]"

definition preset_advert :: string where
  "preset_advert = [CHR 0xE5, CHR 0xB9, CHR 0xBF, CHR 0xE5, CHR 0x91, CHR 0x8A,
     CHR 0xE9, CHR 0x85, CHR 0x8D, CHR 0xE9, CHR 0x9F, CHR 0xB3]"

definition preset_general :: string where
  "preset_general = [CHR 0xE9, CHR 0x80, CHR 0x9A, CHR 0xE7, CHR 0x94, CHR 0xA8,
     CHR 0xE9, CHR 0x85, CHR 0x8D, CHR 0xE9, CHR 0x9F, CHR 0xB3]"

definition nr_light :: string where
  "nr_light = [CHR 0xE8, CHR 0xBD, CHR 0xBB]"

definition nr_medium :: string where
  "nr_medium = [CHR 0xE4, CHR 0xB8, CHR 0xAD]"

definition nr_heavy :: string where
  "nr_heavy = [CHR 0xE9, CHR 0x87, CHR 0x8D]"

subsection \<open>The module constants\<close>

text \<open>
  \<open>TARGET_LUFS\<close> is -16.0 in all four modules and is declared once; the constants that
  differ between the modules carry a suffix below.
\<close>

definition TARGET_LUFS :: real where
  "TARGET_LUFS = - 16"

definition PEAK_THRESHOLD :: real where
  "PEAK_THRESHOLD = - 1"

definition SAMPLE_RATE :: int where
  "SAMPLE_RATE = 44100"

definition BIT_DEPTH :: int where
  "BIT_DEPTH = 16"

subsection \<open>build_gentle_reverb_filter\<close>

record reverb_preset =
  delays :: string
  decays :: string
  wet :: string

definition reverb_presets :: "(int \<times> reverb_preset) list" where
  "reverb_presets =
     [(1, \<lparr>delays = ''30|55|80|110'', decays = ''0.20|0.16|0.13|0.10'', wet = ''0.12''\<rparr>),
      (2, \<lparr>delays = ''25|50|75|100|130'', decays = ''0.24|0.20|0.16|0.13|0.10'',
           wet = ''0.16''\<rparr>),
      (3, \<lparr>delays = ''20|40|60|85|110|140'', decays = ''0.28|0.24|0.20|0.16|0.13|0.10'',
           wet = ''0.20''\<rparr>),
      (4, \<lparr>delays = ''18|36|54|76|98|122|150'',
           decays = ''0.32|0.28|0.24|0.20|0.16|0.13|0.10'', wet = ''0.24''\<rparr>),
      (5, \<lparr>delays = ''16|32|48|68|88|110|135|165'',
           decays = ''0.36|0.32|0.28|0.24|0.20|0.16|0.13|0.10'', wet = ''0.28''\<rparr>)]"

text \<open>The triple-quoted f-string of the function, before its two \<open>replace\<close> calls.\<close>

definition reverb_template :: "reverb_preset \<Rightarrow> string" where
  "reverb_template params =
     nl @ indent 12 @ ''asplit=2[dry][wet];''
     @ nl @ indent 12 @ ''[wet]aecho=0.6:0.4:'' @ delays params @ '':'' @ decays params
       @ '',highpass=f=180,lowpass=f=8000,volume='' @ wet params @ ''[wet_out];''
     @ nl @ indent 12 @ ''[dry][wet_out]amix=inputs=2:normalize=0''
     @ nl @ indent 8"

definition build_gentle_reverb_filter :: "int \<Rightarrow> py_error + string" where
  "build_gentle_reverb_filter reverb_amount =
     (if reverb_amount = 0 then Inr []
      else
        (case py_index reverb_presets 2 of
           Inl e \<Rightarrow> Inl e
         | Inr dflt \<Rightarrow>
             (let params = py_get reverb_presets reverb_amount dflt
              in Inr (remove_newlines_spaces (reverb_template params)))))"

subsection \<open>build_professional_filter_chain\<close>

text \<open>Section 1: the noise-reduction stage chosen from \<open>nr_map\<close>.\<close>

definition nr_map :: "(string \<times> string) list" where
  "nr_map =
     [(''low'', ''highpass=f=100,lowpass=f=14000''),
      (''medium'', ''highpass=f=150,lowpass=f=12000''),
      (''high'', ''highpass=f=200,lowpass=f=10000'')]"

definition nr_filter :: "string \<Rightarrow> string" where
  "nr_filter noise_reduction =
     (let nr_key =
            py_get [(nr_light, ''low''), (nr_medium, ''medium''), (nr_heavy, ''high'')]
              noise_reduction noise_reduction
      in py_get nr_map nr_key ''highpass=f=150,lowpass=f=12000'')"

text \<open>Section 2: the equaliser bands of the preset, then the clarity and warmth bands.\<close>

definition preset_eq_settings :: "string \<Rightarrow> string list" where
  "preset_eq_settings preset =
     (if preset = preset_news then
        [''equalizer=f=100:g=1.5:w=0.707'', ''equalizer=f=300:g=-1.0:w=1.0'',
         ''equalizer=f=1000:g=2.0:w=1.0'', ''equalizer=f=3000:g=1.5:w=1.0'',
         ''equalizer=f=6000:g=0.5:w=2.0'']
      else if preset = preset_documentary then
        [''equalizer=f=80:g=2.0:w=0.707'', ''equalizer=f=250:g=1.0:w=1.0'',
         ''equalizer=f=800:g=1.5:w=1.0'', ''equalizer=f=2000:g=1.0:w=1.0'',
         ''equalizer=f=4000:g=0.5:w=1.0'']
      else if preset = preset_advert then
        [''equalizer=f=120:g=1.5:w=0.707'', ''equalizer=f=400:g=1.0:w=1.0'',
         ''equalizer=f=1500:g=2.0:w=1.0'', ''equalizer=f=4000:g=2.0:w=1.0'',
         ''equalizer=f=8000:g=1.0:w=2.0'']
      else
        [''equalizer=f=100:g=1.5:w=0.707'', ''equalizer=f=300:g=-0.5:w=1.0'',
         ''equalizer=f=1000:g=1.5:w=1.0'', ''equalizer=f=3000:g=1.0:w=1.0'',
         ''equalizer=f=6000:g=0.5:w=2.0''])"

definition eq_settings :: "(real \<Rightarrow> string) \<Rightarrow> string \<Rightarrow> int \<Rightarrow> int \<Rightarrow> string list" where
  "eq_settings fmt preset voice_clarity warmth_level =
     (let clarity_gain = real_of_int (voice_clarity - 3) * 0.6;
          warmth_gain = real_of_int (warmth_level - 3) * 0.5
      in preset_eq_settings preset
         @ [''equalizer=f=2500:g='' @ fmt (1.5 + clarity_gain) @ '':w=1.2'']
         @ [''equalizer=f=200:g='' @ fmt (1.0 + warmth_gain) @ '':w=1.4''])"

text \<open>Section 6: the loudness normalisation stage.\<close>

definition loudnorm_filter :: "(real \<Rightarrow> string) \<Rightarrow> analysis \<Rightarrow> string" where
  "loudnorm_filter fmt a =
     ''loudnorm=I='' @ fmt TARGET_LUFS @ '':LRA=8:TP='' @ fmt PEAK_THRESHOLD @ '':''
     @ ''measured_I='' @ fmt (loudness a) @ '':measured_LRA='' @ fmt (dynamic_range a)
     @ '':measured_TP=-1.0''"

text \<open>The list \<open>filters\<close> as it stands before the final join.\<close>

definition professional_filters ::
  "(real \<Rightarrow> string) \<Rightarrow> string \<Rightarrow> int \<Rightarrow> int \<Rightarrow> int \<Rightarrow> string \<Rightarrow> analysis
     \<Rightarrow> py_error + string list" where
  "professional_filters fmt preset voice_clarity warmth_level reverb_amount noise_reduction a =
     (let filters = [nr_filter noise_reduction];
          filters = filters @ [py_join '','' (eq_settings fmt preset voice_clarity warmth_level)];
          filters = filters
            @ [''acompressor=threshold=-20dB:ratio=2.0:attack=50:release=500:makeup=2''];
          filters = filters @ [''equalizer=f=2000:g=0.5:w=2.0'']
      in
        (case (if reverb_amount > 0
               then (case build_gentle_reverb_filter reverb_amount of
                       Inl e \<Rightarrow> Inl e
                     | Inr reverb_filter \<Rightarrow>
                         Inr (if reverb_filter \<noteq> [] then filters @ [reverb_filter]
                              else filters))
               else Inr filters) of
           Inl e \<Rightarrow> Inl e
         | Inr filters \<Rightarrow>
             (let filters = filters @ [loudnorm_filter fmt a];
                  filters = filters
                    @ [''alimiter=level_in=1:level_out=1:limit=0.9:attack=0.1:release=5:asc=0'']
              in Inr filters)))"

definition build_professional_filter_chain ::
  "(real \<Rightarrow> string) \<Rightarrow> string \<Rightarrow> int \<Rightarrow> int \<Rightarrow> int \<Rightarrow> string \<Rightarrow> analysis
     \<Rightarrow> py_error + string" where
  "build_professional_filter_chain fmt preset voice_clarity warmth_level reverb_amount
       noise_reduction a =
     (case professional_filters fmt preset voice_clarity warmth_level reverb_amount
             noise_reduction a of
        Inl e \<Rightarrow> Inl e
      | Inr filters \<Rightarrow> Inr (remove_newlines_spaces (py_join '','' filters)))"

section \<open>The multi-band compressor text shared by two programs\<close>

text \<open>
  \<open>build_vocal_filter_chain\<close> and \<open>build_processing_chain\<close> append the same
  triple-quoted f-string; only the indentation of its continuation lines differs (12 and
  16 columns). \<open>ratio\<close> is the text the f-string puts in for \<open>{ratio}\<close>.
\<close>

definition multiband_template :: "nat \<Rightarrow> string \<Rightarrow> string" where
  "multiband_template n ratio =
     ''asplit=3[low][mid][high];''
     @ nl @ indent n
     @ ''[low]lowpass=f=300,acompressor=threshold=-24dB:ratio=3.5:attack=50:release=1000[low_out];''
     @ nl @ indent n
     @ ''[mid]highpass=f=300,lowpass=f=3000,acompressor=threshold=-22dB:ratio='' @ ratio
     @ '':attack=30:release=800[mid_out];''
     @ nl @ indent n
     @ ''[high]highpass=f=3000,acompressor=threshold=-20dB:ratio=2.0:attack=20:release=500[high_out];''
     @ nl @ indent n
     @ ''[low_out][mid_out][high_out]amix=inputs=3:weights=1.1 1.0 0.9''"

text \<open>The names of the stereo-field presets (original, slightly widened, wide, broadcast).\<close>

definition sf_original :: string where
  "sf_original = [CHR 0xE5, CHR 0x8E, CHR 0x9F, CHR 0xE5, CHR 0xA3, CHR 0xB0,
     CHR 0xE7, CHR 0x9B, CHR 0xB8]"

definition sf_slight :: string where
  "sf_slight = [CHR 0xE8, CHR 0xBD, CHR 0xBB, CHR 0xE5, CHR 0xBE, CHR 0xAE,
     CHR 0xE6, CHR 0x89, CHR 0xA9, CHR 0xE5, CHR 0xB1, CHR 0x95]"

definition sf_wide :: string where
  "sf_wide = [CHR 0xE5, CHR 0xAE, CHR 0xBD, CHR 0xE5, CHR 0xA3, CHR 0xB0,
     CHR 0xE5, CHR 0x9C, CHR 0xBA]"

definition sf_broadcast :: string where
  "sf_broadcast = [CHR 0xE5, CHR 0xB9, CHR 0xBF, CHR 0xE6, CHR 0x92, CHR 0xAD,
     CHR 0xE7, CHR 0xAB, CHR 0x8B, CHR 0xE4, CHR 0xBD, CHR 0x93, CHR 0xE5, CHR 0xA3, CHR 0xB0]"

section \<open>The vocal enhancer (VocalProcessor)\<close>

text \<open>The dictionary returned by \<open>analyze_file\<close>, always with these eight keys.\<close>

record vocal_analysis =
  v_is_lossless :: bool
  v_ext :: string
  v_bitrate :: int
  v_loudness :: real
  v_dynamic_range :: real
  v_noise_floor :: real
  v_high_freq_energy :: real
  v_input_path :: string

text \<open>The three scene modes of \<open>scene_combo\<close>; only the first two are tested for.\<close>

definition scene_speech :: string where
  "scene_speech = [CHR 0xE5, CHR 0x8F, CHR 0xA3, CHR 0xE6, CHR 0x92, CHR 0xAD,
     CHR 0xE6, CHR 0xB8, CHR 0x85, CHR 0xE6, CHR 0x99, CHR 0xB0, CHR 0xE6, CHR 0xA1, CHR 0xA3]"

definition scene_emotional :: string where
  "scene_emotional = [CHR 0xE6, CHR 0x83, CHR 0x85, CHR 0xE6, CHR 0x84, CHR 0x9F,
     CHR 0xE9, CHR 0xA5, CHR 0xB1, CHR 0xE6, CHR 0xBB, CHR 0xA1, CHR 0xE6, CHR 0xA1, CHR 0xA3]"

subsection \<open>build_vocal_filter_chain\<close>

text \<open>
  Section 1. \<open>dn_map\<close> holds the texts \<open>"-20"\<close>, \<open>"-30"\<close>, \<open>"-40"\<close>, which the function
  passes to \<open>int\<close> at once; they are written as the integers they denote.
\<close>

definition dn_map :: "(string \<times> int) list" where
  "dn_map = [(''low'', - 20), (''mid'', - 30), (''high'', - 40)]"

definition base_dn :: "string \<Rightarrow> int" where
  "base_dn denoise_level = py_get dn_map denoise_level (- 30)"

definition final_dn :: "string \<Rightarrow> real \<Rightarrow> int" where
  "final_dn denoise_level nfloor =
     (if nfloor > - 45 then base_dn denoise_level
      else if nfloor < - 55 then base_dn denoise_level + 10
      else base_dn denoise_level + 5)"

definition denoise_filter :: "string \<Rightarrow> real \<Rightarrow> string" where
  "denoise_filter denoise_level nfloor =
     ''afftdn=nf='' @ str_int (final_dn denoise_level nfloor) @ '':nt=w,highpass=f=80''"

text \<open>Section 2.\<close>

definition eq_parts :: "(real \<Rightarrow> string) \<Rightarrow> string \<Rightarrow> int \<Rightarrow> string list" where
  "eq_parts fmt scene_mode voice_clarity_level =
     (let parts =
            (if scene_mode = scene_speech then
               [''equalizer=f=160:g=2.0:w=1.6'', ''equalizer=f=1200:g=2.5:w=1.0'',
                ''equalizer=f=8000:g=2.0:w=2.0'']
             else if scene_mode = scene_emotional then
               [''equalizer=f=160:g=3.5:w=1.6'', ''equalizer=f=1200:g=2.0:w=1.0'',
                ''equalizer=f=8000:g=2.2:w=2.0'']
             else
               [''equalizer=f=160:g=2.0:w=1.6'', ''equalizer=f=1200:g=2.0:w=1.0'',
                ''equalizer=f=8000:g=1.5:w=2.0'']);
          clarity_gain = real_of_int (voice_clarity_level - 3) * 0.5
      in parts @ [''equalizer=f=3500:g='' @ fmt (2.0 + clarity_gain) @ '':w=1.0''])"

text \<open>Section 3: the compression ratio of the middle band.\<close>

definition mid_ratio :: "real \<Rightarrow> real" where
  "mid_ratio dr = (if dr > 20 then 3.0 else 2.0)"

text \<open>Section 4.\<close>

definition deesser_filter :: "(real \<Rightarrow> string) \<Rightarrow> real \<Rightarrow> string" where
  "deesser_filter fmt hf_energy =
     (let i_val = (if hf_energy > - 15 then 0.6 else 0.4);
          m_val = (if hf_energy > - 15 then 0.6 else 0.4)
      in ''deesser=i='' @ fmt i_val @ '':m='' @ fmt m_val @ '':f=0.5'')"

text \<open>Section 5.\<close>

definition vocal_sound_field_presets :: "(string \<times> string) list" where
  "vocal_sound_field_presets =
     [(sf_original, ''stereo|c0=1.0*c0+0.0*c1|c1=0.0*c0+1.0*c1''),
      (sf_slight, ''stereo|c0=0.8*c0+0.2*c1|c1=0.2*c0+0.8*c1''),
      (sf_broadcast, ''stereo|c0=0.7*c0+0.3*c1|c1=0.3*c0+0.7*c1,adelay=1ms|0ms'')]"

definition vocal_filters ::
  "(real \<Rightarrow> string) \<Rightarrow> string \<Rightarrow> int \<Rightarrow> bool \<Rightarrow> string \<Rightarrow> string \<Rightarrow> vocal_analysis
     \<Rightarrow> py_error + string list" where
  "vocal_filters fmt scene_mode voice_clarity_level deesser_on sound_field denoise_level a =
     (let filters = [denoise_filter denoise_level (v_noise_floor a)];
          filters = filters @ [py_join '','' (eq_parts fmt scene_mode voice_clarity_level)];
          ratio = mid_ratio (v_dynamic_range a);
          filters = filters @ [multiband_template 12 (fmt ratio)];
          filters = (if deesser_on then filters @ [deesser_filter fmt (v_high_freq_energy a)]
                     else filters)
      in
        (case py_index vocal_sound_field_presets sf_slight of
           Inl e \<Rightarrow> Inl e
         | Inr dflt \<Rightarrow>
             (let pan_expr = py_get vocal_sound_field_presets sound_field dflt
              in Inr (filters @ [''pan='' @ pan_expr]))))"

definition build_vocal_filter_chain ::
  "(real \<Rightarrow> string) \<Rightarrow> string \<Rightarrow> int \<Rightarrow> bool \<Rightarrow> string \<Rightarrow> string \<Rightarrow> vocal_analysis
     \<Rightarrow> py_error + string" where
  "build_vocal_filter_chain fmt scene_mode voice_clarity_level deesser_on sound_field
       denoise_level a =
     (case vocal_filters fmt scene_mode voice_clarity_level deesser_on sound_field
             denoise_level a of
        Inl e \<Rightarrow> Inl e
      | Inr filters \<Rightarrow>
          Inr (remove_newlines_spaces (py_join '','' (filter (\<lambda>f. f \<noteq> []) filters))))"

section \<open>The broadcast background-music tool (BackgroundMusicProcessor)\<close>

definition LRA_bgm :: int where
  "LRA_bgm = 10"

definition PEAK_THRESHOLD_bgm :: real where
  "PEAK_THRESHOLD_bgm = - 1.5"

definition NOISE_REDUCTION :: int where
  "NOISE_REDUCTION = - 35"

text \<open>The dictionary returned by \<open>analyze_file\<close>.\<close>

record bgm_analysis =
  b_is_lossless :: bool
  b_ext :: string
  b_bitrate :: int
  b_dynamic_range :: real
  b_loudness :: real

subsection \<open>build_processing_chain\<close>

definition sound_field_presets :: "(string \<times> string) list" where
  "sound_field_presets =
     [(sf_original, ''stereo|c0=1.0*c0+0.0*c1|c1=0.0*c0+1.0*c1''),
      (sf_slight, ''stereo|c0=0.8*c0+0.2*c1|c1=0.2*c0+0.8*c1''),
      (sf_wide, ''stereo|c0=0.7*c0+0.3*c1|c1=0.3*c0+0.7*c1'')]"

text \<open>The items of \<open>sound_field_combo\<close>, the only values the window passes on.\<close>

definition sound_field_combo_items :: "string list" where
  "sound_field_combo_items = [sf_original, sf_slight, sf_wide]"

definition processing_filters ::
  "(real \<Rightarrow> string) \<Rightarrow> bool \<Rightarrow> string \<Rightarrow> bool \<Rightarrow> bgm_analysis \<Rightarrow> py_error + string list" where
  "processing_filters fmt use_compress sound_field avoid_vocal a =
     (let filters = [''afftdn=nf='' @ str_int NOISE_REDUCTION @ '':nt=w,highpass=f=50''];
          filters =
            (if avoid_vocal then
               filters @ [''equalizer=f=1500:g=-4:w=2.0,equalizer=f=300:g=1.5:w=1.0,equalizer=f=8000:g=1.5:w=2.0'']
             else filters @ [''equalizer=f=200:g=1:w=1.0,equalizer=f=5000:g=1:w=2.0'']);
          filters =
            (if use_compress then
               (let ratio = (if b_dynamic_range a > 20 then 3.0 else 2.0)
                in filters @ [multiband_template 16 (fmt ratio)])
             else filters)
      in
        (case py_index sound_field_presets sound_field of
           Inl e \<Rightarrow> Inl e
         | Inr p \<Rightarrow> Inr (filters @ [''pan='' @ p])))"

definition build_processing_chain ::
  "(real \<Rightarrow> string) \<Rightarrow> bool \<Rightarrow> string \<Rightarrow> bool \<Rightarrow> bgm_analysis \<Rightarrow> py_error + string" where
  "build_processing_chain fmt use_compress sound_field avoid_vocal a =
     (case processing_filters fmt use_compress sound_field avoid_vocal a of
        Inl e \<Rightarrow> Inl e
      | Inr filters \<Rightarrow> Inr (remove_newlines_spaces (py_join '','' filters)))"

section \<open>The smart compressor (SmartCompressor, BGMMusicMasteringThread)\<close>

subsection \<open>get_multi_band_params\<close>

text \<open>
  \<open>max(1.2, base_ratio - 1)\<close> compares a float with an integer and returns one of the two
  objects: the integer, printed without a fraction, when it is the larger.
\<close>

definition get_multi_band_params ::
  "(real \<Rightarrow> string) \<Rightarrow> real \<Rightarrow> int \<Rightarrow> int \<Rightarrow> int \<Rightarrow> int \<Rightarrow> string" where
  "get_multi_band_params fmt dyn_range attack release eq_freq eq_gain =
     (let base_ratio = (if dyn_range < 15 then 2 else if dyn_range < 20 then 3 else (4::int));
          low_compress =
            ''acompressor=threshold=-22dB:ratio='' @ str_int base_ratio
            @ '':attack='' @ str_int attack @ '':release='' @ str_int release
            @ '':knee=12dB:makeup=4dB'';
          mid_compress =
            ''acompressor=threshold=-20dB:ratio='' @ fmt (max 1.5 (real_of_int base_ratio - 0.5))
            @ '':attack='' @ str_int (min (attack + 20) 50)
            @ '':release='' @ str_int (min (release + 300) 800)
            @ '':knee=8dB:makeup=3dB,''
            @ ''equalizer=f='' @ str_int eq_freq @ '':g='' @ str_int eq_gain @ '':w=1.0'';
          high_compress =
            ''acompressor=threshold=-18dB:ratio=''
            @ (if real_of_int (base_ratio - 1) > 1.2 then str_int (base_ratio - 1) else fmt 1.2)
            @ '':attack='' @ str_int (max (attack - 2) 3)
            @ '':release='' @ str_int (min (release + 100) 500)
            @ '':knee=6dB:makeup=2dB''
      in ''asplit=3[low][mid][high];''
         @ ''[low]lowpass=250,'' @ low_compress @ ''[low_out];''
         @ ''[mid]highpass=250,lowpass=2000,'' @ mid_compress @ ''[mid_out];''
         @ ''[high]highpass=2000,'' @ high_compress @ ''[high_out];''
         @ ''[low_out][mid_out][high_out]amix=inputs=3:weights=1.2 1 0.8'')"

subsection \<open>get_adaptive_loudnorm\<close>

definition adaptive_target_lufs :: "real \<Rightarrow> real" where
  "adaptive_target_lufs input_lufs =
     (let target_lufs = TARGET_LUFS;
          target_lufs = (if input_lufs < TARGET_LUFS - 10 then input_lufs + 8 else target_lufs)
      in target_lufs)"

definition get_adaptive_loudnorm :: "(real \<Rightarrow> string) \<Rightarrow> real \<Rightarrow> string" where
  "get_adaptive_loudnorm fmt input_lufs =
     ''loudnorm=I='' @ fmt (adaptive_target_lufs input_lufs) @ '':LRA=11:TP=-1.5''"

subsection \<open>_get_traditional_compress_params\<close>

definition get_traditional_compress_params :: "real \<Rightarrow> string" where
  "get_traditional_compress_params dyn_range =
     (if dyn_range \<ge> 20 then
        ''threshold=-20dB:ratio=4:attack=10:release=100:knee=8dB:makeup=6dB''
      else if 10 \<le> dyn_range \<and> dyn_range < 20 then
        ''threshold=-18dB:ratio=3:attack=8:release=80:knee=6dB:makeup=4dB''
      else ''threshold=-16dB:ratio=2:attack=5:release=60:knee=4dB:makeup=2dB'')"

subsection \<open>run: the choice of the compression and loudness filters\<close>

text \<open>
  The measurements \<open>dynamic_range\<close>, \<open>attack\<close>, \<open>release\<close> and \<open>input_lufs\<close> come from
  the engine's analysis passes; \<open>run\<close> turns them into the pair
  \<open>(compress_filter, loudnorm_filter)\<close>.
\<close>

definition mastering_choose_filters ::
  "(real \<Rightarrow> string) \<Rightarrow> bool \<Rightarrow> bool \<Rightarrow> int \<Rightarrow> int \<Rightarrow> real \<Rightarrow> int \<Rightarrow> int \<Rightarrow> real
     \<Rightarrow> string \<times> string" where
  "mastering_choose_filters fmt compress_enabled use_smart_compress eq_freq eq_gain
       dyn_range attack release input_lufs =
     (if compress_enabled \<and> use_smart_compress then
        (get_multi_band_params fmt dyn_range attack release eq_freq eq_gain,
         get_adaptive_loudnorm fmt input_lufs)
      else if compress_enabled then
        (''acompressor='' @ get_traditional_compress_params dyn_range,
         ''loudnorm=I='' @ fmt TARGET_LUFS @ '':LRA=11:TP=-1.5'')
      else (''anull'', ''loudnorm=I='' @ fmt TARGET_LUFS @ '':LRA=11:TP=-1.5''))"

subsection \<open>_process_audio: the text given to the engine as \<open>-filter_complex\<close>\<close>

text \<open>The items of \<open>pan_combo\<close>, which are the keys of \<open>pan_options\<close>.\<close>

definition pan_wide :: string where
  "pan_wide = [CHR 0xE5, CHR 0xAE, CHR 0xBD, CHR 0xE5, CHR 0xA3, CHR 0xB0, CHR 0xE7,
     CHR 0x9B, CHR 0xB8, CHR 0xEF, CHR 0xBC, CHR 0x88, CHR 0xE8, CHR 0xBF, CHR 0x9C, CHR 0xE7,
     CHR 0xA6, CHR 0xBB, CHR 0xE4, CHR 0xBA, CHR 0xBA, CHR 0xE5, CHR 0xA3, CHR 0xB0, CHR 0xEF,
     CHR 0xBC, CHR 0x89]"

definition pan_extra_wide :: string where
  "pan_extra_wide = [CHR 0xE6, CHR 0x9E, CHR 0x81, CHR 0xE5, CHR 0xAE, CHR 0xBD, CHR 0xE5,
     CHR 0xA3, CHR 0xB0, CHR 0xE7, CHR 0x9B, CHR 0xB8, CHR 0xEF, CHR 0xBC, CHR 0x88, CHR 0xE7,
     CHR 0x8E, CHR 0xAF, CHR 0xE7, CHR 0xBB, CHR 0x95, CHR 0xE6, CHR 0x84, CHR 0x9F, CHR 0xEF,
     CHR 0xBC, CHR 0x89]"

definition pan_default :: string where
  "pan_default = [CHR 0xE9, CHR 0xBB, CHR 0x98, CHR 0xE8, CHR 0xAE, CHR 0xA4, CHR 0xEF,
     CHR 0xBC, CHR 0x88, CHR 0xE8, CHR 0xBD, CHR 0xBB, CHR 0xE5, CHR 0xBE, CHR 0xAE, CHR 0xE6,
     CHR 0x8B, CHR 0x89, CHR 0xE5, CHR 0xAE, CHR 0xBD, CHR 0xEF, CHR 0xBC, CHR 0x89]"

definition pan_options :: "(string \<times> string) list" where
  "pan_options =
     [(pan_wide, ''stereo|c0=0.9*c0+0.1*c1|c1=0.1*c0+0.9*c1''),
      (pan_extra_wide, ''stereo|c0=1.0*c0+0.0*c1|c1=0.0*c0+1.0*c1''),
      (pan_default, ''stereo|c0=0.8*c0+0.2*c1|c1=0.2*c0+0.8*c1'')]"

definition pre_filter_complex ::
  "string \<Rightarrow> bool \<Rightarrow> int \<Rightarrow> int \<Rightarrow> string \<Rightarrow> py_error + string" where
  "pre_filter_complex pan_type eq_enabled eq_freq eq_gain compress_filter =
     (let pre_filters =
            (if eq_enabled
             then [''equalizer=f='' @ str_int eq_freq @ '':g='' @ str_int eq_gain @ '':w=1.0'']
             else []);
          pre_filters = pre_filters @ [compress_filter]
      in
        (case (if pan_type \<noteq> []
               then (case py_index pan_options pan_type of
                       Inl e \<Rightarrow> Inl e
                     | Inr p \<Rightarrow> Inr (pre_filters @ [''pan='' @ p]))
               else Inr pre_filters) of
           Inl e \<Rightarrow> Inl e
         | Inr pre_filters \<Rightarrow> Inr (py_join '','' pre_filters)))"

section \<open>The external engine and the file system\<close>

text \<open>
  Every \<open>subprocess.run\<close> either raises (the program cannot be started, or the time limit
  passes) or completes with a return code and the text of the error stream. What the
  engine answers and what it does to the files is not decided by the programs, so a
  world carries a script: the answer and the effect on the files of each coming call.
  The theorems hold for every script. A world also records the command lines issued so
  far. Whether a file can be removed is the system's decision as well: a world lists the
  outcome of each coming \<open>os.remove\<close>, \<open>False\<close> where it raises \<open>OSError\<close> and leaves
  the file (the file is in use, or the permission is missing); past the end of the list
  a removal succeeds. The exceptions of \<open>subprocess.run\<close> are kept apart from it as
  \<open>SubprocessError\<close>. The \<open>log.emit\<close> calls are left out.
\<close>

datatype proc_result = Raises string | Completed int string

type_synonym filesys = "string \<rightharpoonup> int"

datatype response = Response proc_result "filesys \<Rightarrow> filesys"

record world =
  files :: filesys
  script :: "response list"
  calls :: "string list list"
  removals :: "bool list"

definition subprocess_run :: "string list \<Rightarrow> world \<Rightarrow> proc_result \<times> world" where
  "subprocess_run cmd w =
     (case script w of
        [] \<Rightarrow> (Raises [], w\<lparr>calls := calls w @ [cmd]\<rparr>)
      | Response r effect # rest \<Rightarrow>
          (r, w\<lparr>files := effect (files w), script := rest, calls := calls w @ [cmd]\<rparr>))"

definition os_path_exists :: "string \<Rightarrow> world \<Rightarrow> bool" where
  "os_path_exists p w = (files w p \<noteq> None)"

definition os_path_getsize :: "string \<Rightarrow> world \<Rightarrow> int" where
  "os_path_getsize p w = (case files w p of Some n \<Rightarrow> n | None \<Rightarrow> 0)"

text \<open>\<open>os.remove(p)\<close>: the flag returned is \<open>False\<close> when the call raises \<open>OSError\<close>.\<close>

definition os_remove :: "string \<Rightarrow> world \<Rightarrow> bool \<times> world" where
  "os_remove p w =
     (case removals w of
        [] \<Rightarrow> (True, w\<lparr>files := (files w)(p := None)\<rparr>)
      | ok # rest \<Rightarrow>
          (if ok then (True, w\<lparr>files := (files w)(p := None), removals := rest\<rparr>)
           else (False, w\<lparr>removals := rest\<rparr>)))"

text \<open>\<open>if os.path.exists(p): os.remove(p)\<close>, with the same flag.\<close>

definition remove_if_exists :: "string \<Rightarrow> world \<Rightarrow> bool \<times> world" where
  "remove_if_exists p w = (if os_path_exists p w then os_remove p w else (True, w))"

text \<open>
  The functions of the Python library whose results the programs only pass on:
  \<open>os.path.splitext\<close>, \<open>str.lower\<close>, and the conversions \<open>float\<close> and \<open>int\<close>, which give
  \<open>None\<close> where Python raises \<open>ValueError\<close>.
\<close>

record py_lib =
  lib_splitext :: "string \<Rightarrow> string \<times> string"
  lib_lower :: "string \<Rightarrow> string"
  lib_float :: "string \<Rightarrow> real option"
  lib_int :: "string \<Rightarrow> int option"

subsection \<open>Text operations used on the engine's summaries\<close>

text \<open>
  \<open>s.splitlines()\<close>. In text mode the error stream has its line ends already turned into
  line feeds; the rarer separators of \<open>splitlines\<close> are not modelled.
\<close>

fun splitlines_from :: "string \<Rightarrow> string \<Rightarrow> string list" where
  "splitlines_from cur [] = (if cur = [] then [] else [rev cur])"
| "splitlines_from cur (c # cs) =
     (if c = CHR 0x0A then rev cur # splitlines_from [] cs else splitlines_from (c # cur) cs)"

definition py_splitlines :: "string \<Rightarrow> string list" where
  "py_splitlines s = splitlines_from [] s"

text \<open>\<open>sub in s\<close> is \<^const>\<open>sublist\<close>. \<open>s.split(c)\<close> for a separator of one character.\<close>

fun py_split_char :: "char \<Rightarrow> string \<Rightarrow> string list" where
  "py_split_char c [] = [[]]"
| "py_split_char c (x # xs) =
     (if x = c then [] # py_split_char c xs
      else (case py_split_char c xs of
              [] \<Rightarrow> [[x]]
            | h # t \<Rightarrow> (x # h) # t))"

text \<open>\<open>s.split(sep)[0]\<close>: the text before the first occurrence of \<open>sep\<close>.\<close>

fun before_first :: "string \<Rightarrow> string \<Rightarrow> string" where
  "before_first sep [] = []"
| "before_first sep (x # xs) = (if prefix sep (x # xs) then [] else x # before_first sep xs)"

text \<open>The ASCII white space of \<open>str.strip()\<close> and \<open>str.split()\<close>.\<close>

definition py_isspace :: "char \<Rightarrow> bool" where
  "py_isspace c =
     (c \<in> {CHR 0x09, CHR 0x0A, CHR 0x0B, CHR 0x0C, CHR 0x0D, CHR 0x1C, CHR 0x1D, CHR 0x1E,
            CHR 0x1F, CHR 0x20})"

definition py_strip :: "string \<Rightarrow> string" where
  "py_strip s = dropWhile py_isspace (rev (dropWhile py_isspace (rev s)))"

function py_split_ws :: "string \<Rightarrow> string list" where
  "py_split_ws [] = []"
| "py_split_ws (c # cs) =
     (if py_isspace c then py_split_ws cs
      else (c # takeWhile (\<lambda>d. \<not> py_isspace d) cs)
           # py_split_ws (dropWhile (\<lambda>d. \<not> py_isspace d) cs))"
  by pat_completeness auto
termination
  by (relation "measure length") (auto simp add: less_Suc_eq_le length_dropWhile_le)

text \<open>\<open>s.replace(old, new)\<close> for a non-empty \<open>old\<close>; \<open>k\<close> characters are still to be skipped.\<close>

fun replace_from :: "string \<Rightarrow> string \<Rightarrow> nat \<Rightarrow> string \<Rightarrow> string" where
  "replace_from old new k [] = []"
| "replace_from old new k (c # cs) =
     (if k > 0 then replace_from old new (k - 1) cs
      else if prefix old (c # cs) then new @ replace_from old new (length old - 1) cs
      else c # replace_from old new 0 cs)"

definition py_replace :: "string \<Rightarrow> string \<Rightarrow> string \<Rightarrow> string" where
  "py_replace old new s = replace_from old new 0 s"

text \<open>\<open>xs[-1]\<close> and \<open>xs[0]\<close>, which raise \<open>IndexError\<close> on the empty list.\<close>

definition py_last :: "'a list \<Rightarrow> 'a option" where
  "py_last xs = (if xs = [] then None else Some (last xs))"

definition py_first :: "'a list \<Rightarrow> 'a option" where
  "py_first xs = (case xs of [] \<Rightarrow> None | x # _ \<Rightarrow> Some x)"

section \<open>The dubbing enhancer: analysis of the input file\<close>

text \<open>\<open>FFMPEG_PATH\<close> is found when the module is loaded; it is the parameter \<open>ffmpeg\<close>.\<close>

subsection \<open>measure_loudness\<close>

text \<open>\<open>float(line.split(":")[-1].strip().split()[0])\<close>, \<open>None\<close> when it raises.\<close>

definition parse_loudness_line :: "py_lib \<Rightarrow> string \<Rightarrow> real option" where
  "parse_loudness_line lib line =
     (case py_last (py_split_char CHR '':'' line) of
        None \<Rightarrow> None
      | Some t \<Rightarrow>
          (case py_first (py_split_ws (py_strip t)) of
             None \<Rightarrow> None
           | Some tok \<Rightarrow> lib_float lib tok))"

fun loudness_of_lines :: "py_lib \<Rightarrow> string list \<Rightarrow> real" where
  "loudness_of_lines lib [] = - 20"
| "loudness_of_lines lib (line # ls) =
     (if sublist ''Input Integrated Loudness'' line then
        (case parse_loudness_line lib line of
           Some v \<Rightarrow> v
         | None \<Rightarrow> loudness_of_lines lib ls)
      else loudness_of_lines lib ls)"

definition loudness_of_result :: "py_lib \<Rightarrow> proc_result \<Rightarrow> real" where
  "loudness_of_result lib r =
     (case r of
        Raises e \<Rightarrow> - 20
      | Completed rc err \<Rightarrow> loudness_of_lines lib (py_splitlines err))"

definition loudnorm_cmd :: "string \<Rightarrow> string \<Rightarrow> string list" where
  "loudnorm_cmd ffmpeg input_path =
     [ffmpeg, ''-i'', input_path, ''-af'',
      ''loudnorm=I=-16:LRA=8:TP=-1.0:print_format=summary'',
      ''-f'', ''null'', ''-'', ''-hide_banner'']"

definition measure_loudness :: "py_lib \<Rightarrow> string \<Rightarrow> string \<Rightarrow> world \<Rightarrow> real \<times> world" where
  "measure_loudness lib ffmpeg input_path w =
     (let cmd = loudnorm_cmd ffmpeg input_path;
          (r, w1) = subprocess_run cmd w
      in (loudness_of_result lib r, w1))"

subsection \<open>get_volume_stats and the three functions that call it\<close>

record volume_stats =
  stat_max :: real
  stat_min :: real
  stat_mean :: real

definition default_volume_stats :: volume_stats where
  "default_volume_stats = \<lparr>stat_max = - 10, stat_min = - 60, stat_mean = - 20\<rparr>"

text \<open>\<open>float(line.split(":")[-1].strip().replace(" dB", ""))\<close>, \<open>None\<close> when it raises.\<close>

definition parse_db :: "py_lib \<Rightarrow> string \<Rightarrow> real option" where
  "parse_db lib line =
     (case py_last (py_split_char CHR '':'' line) of
        None \<Rightarrow> None
      | Some t \<Rightarrow> lib_float lib (py_replace '' dB'' [] (py_strip t)))"

definition volume_line :: "py_lib \<Rightarrow> volume_stats \<Rightarrow> string \<Rightarrow> volume_stats" where
  "volume_line lib st line =
     (let st = (if sublist ''max_volume'' line then
                  (case parse_db lib line of Some v \<Rightarrow> st\<lparr>stat_max := v\<rparr> | None \<Rightarrow> st)
                else st);
          st = (if sublist ''min_volume'' line then
                  (case parse_db lib line of Some v \<Rightarrow> st\<lparr>stat_min := v\<rparr> | None \<Rightarrow> st)
                else st);
          st = (if sublist ''mean_volume'' line then
                  (case parse_db lib line of Some v \<Rightarrow> st\<lparr>stat_mean := v\<rparr> | None \<Rightarrow> st)
                else st)
      in st)"

definition volume_stats_of_result :: "py_lib \<Rightarrow> proc_result \<Rightarrow> volume_stats" where
  "volume_stats_of_result lib r =
     (case r of
        Raises e \<Rightarrow> default_volume_stats
      | Completed rc err \<Rightarrow> foldl (volume_line lib) default_volume_stats (py_splitlines err))"

definition volumedetect_cmd :: "string \<Rightarrow> string \<Rightarrow> string list" where
  "volumedetect_cmd ffmpeg input_path =
     [ffmpeg, ''-i'', input_path, ''-af'', ''volumedetect'', ''-vn'',
      ''-f'', ''null'', ''-'', ''-hide_banner'']"

definition get_volume_stats ::
  "py_lib \<Rightarrow> string \<Rightarrow> string \<Rightarrow> world \<Rightarrow> volume_stats \<times> world" where
  "get_volume_stats lib ffmpeg input_path w =
     (let cmd = volumedetect_cmd ffmpeg input_path;
          (r, w1) = subprocess_run cmd w
      in (volume_stats_of_result lib r, w1))"

definition analyze_dynamics ::
  "py_lib \<Rightarrow> string \<Rightarrow> string \<Rightarrow> world \<Rightarrow> (real \<times> real) \<times> world" where
  "analyze_dynamics lib ffmpeg input_path w =
     (let (stats, w1) = get_volume_stats lib ffmpeg input_path w
      in ((\<bar>stat_max stats - stat_min stats\<bar>, stat_min stats), w1))"

definition detect_voice_characteristics ::
  "py_lib \<Rightarrow> string \<Rightarrow> string \<Rightarrow> world \<Rightarrow> (string \<times> real) \<times> world" where
  "detect_voice_characteristics lib ffmpeg input_path w =
     (let (stats, w1) = get_volume_stats lib ffmpeg input_path w;
          max_vol = stat_max stats;
          g = (if max_vol > - 6 then ''male''
               else if max_vol < - 12 then ''female''
               else ''unknown'')
      in ((g, max_vol), w1))"

definition calculate_perceived_loudness ::
  "py_lib \<Rightarrow> string \<Rightarrow> string \<Rightarrow> world \<Rightarrow> real \<times> world" where
  "calculate_perceived_loudness lib ffmpeg input_path w =
     (let (stats, w1) = get_volume_stats lib ffmpeg input_path w
      in (stat_mean stats, w1))"

subsection \<open>analyze_audio_quality\<close>

text \<open>The texts of the two exceptions the function raises.\<close>

definition msg_file_missing :: string where
  "msg_file_missing = [CHR 0xE6, CHR 0x96, CHR 0x87, CHR 0xE4, CHR 0xBB, CHR 0xB6,
     CHR 0xE4, CHR 0xB8, CHR 0x8D, CHR 0xE5, CHR 0xAD, CHR 0x98, CHR 0xE5, CHR 0x9C,
     CHR 0xA8, CHR 0x3A, CHR 0x20]"

definition msg_analysis_failed :: string where
  "msg_analysis_failed = [CHR 0xE5, CHR 0x88, CHR 0x86, CHR 0xE6, CHR 0x9E, CHR 0x90,
     CHR 0xE6, CHR 0x96, CHR 0x87, CHR 0xE4, CHR 0xBB, CHR 0xB6, CHR 0xE5, CHR 0xA4,
     CHR 0xB1, CHR 0xE8, CHR 0xB4, CHR 0xA5, CHR 0x3A, CHR 0x20]"

definition initial_analysis :: "py_lib \<Rightarrow> string \<Rightarrow> analysis" where
  "initial_analysis lib input_path =
     \<lparr>format = lib_lower lib (snd (lib_splitext lib input_path)),
      is_lossless = False, bitrate = 192, sample_rate = 44100, channels = 2, duration = 0,
      loudness = - 20, dynamic_range = 12, noise_floor = - 60, gender = ''unknown'',
      high_freq_energy = - 20, volume_level = 0, quality_score = 0\<rparr>"

text \<open>
  The \<open>Duration\<close> branch of the loop over the probe's lines. Any exception inside its
  \<open>try\<close> leaves the dictionary as it was.
\<close>

definition duration_line :: "py_lib \<Rightarrow> string \<Rightarrow> analysis \<Rightarrow> analysis" where
  "duration_line lib line a =
     (case py_first (py_split_char CHR '','' line) of
        None \<Rightarrow> a
      | Some before_comma \<Rightarrow>
          (case py_last (py_split_char CHR '':'' before_comma) of
             None \<Rightarrow> a
           | Some t \<Rightarrow>
               (let duration_str = py_strip t;
                    parts = py_split_char CHR '':'' duration_str
                in (case parts of
                      [hours, minutes, seconds] \<Rightarrow>
                        (case (lib_float lib hours, lib_float lib minutes,
                               lib_float lib seconds) of
                           (Some h, Some m, Some s) \<Rightarrow>
                             a\<lparr>duration := h * 3600 + m * 60 + s\<rparr>
                         | _ \<Rightarrow> a)
                    | _ \<Rightarrow> a))))"

text \<open>\<open>int(line.split(sep)[0].split()[-1])\<close>, \<open>None\<close> when it raises.\<close>

definition int_before :: "py_lib \<Rightarrow> string \<Rightarrow> string \<Rightarrow> int option" where
  "int_before lib sep line =
     (case py_last (py_split_ws (before_first sep line)) of
        None \<Rightarrow> None
      | Some tok \<Rightarrow> lib_int lib tok)"

text \<open>
  The \<open>Audio\<close> branch. Its four statements share one \<open>try\<close>: an exception at the bit rate
  or at the sample rate skips the statements after it and keeps the assignments before.
\<close>

definition audio_line :: "py_lib \<Rightarrow> string \<Rightarrow> analysis \<Rightarrow> analysis" where
  "audio_line lib line a =
     (let a1 = (if sublist ''flac'' line \<or> sublist ''wav'' line
                then a\<lparr>is_lossless := True\<rparr> else a)
      in (case (if sublist ''kb/s'' line
                then map_option (\<lambda>b. a1\<lparr>bitrate := b\<rparr>) (int_before lib ''kb/s'' line)
                else Some a1) of
            None \<Rightarrow> a1
          | Some a2 \<Rightarrow>
              (case (if sublist ''Hz'' line
                     then map_option (\<lambda>r. a2\<lparr>sample_rate := r\<rparr>) (int_before lib ''Hz'' line)
                     else Some a2) of
                 None \<Rightarrow> a2
               | Some a3 \<Rightarrow> (if sublist ''stereo'' line then a3\<lparr>channels := 2\<rparr> else a3))))"

definition probe_line :: "py_lib \<Rightarrow> analysis \<Rightarrow> string \<Rightarrow> analysis" where
  "probe_line lib a line =
     (let a = (if sublist ''Duration'' line then duration_line lib line a else a);
          a = (if sublist ''Audio'' line then audio_line lib line a else a)
      in a)"

definition probe_cmd :: "string \<Rightarrow> string \<Rightarrow> string list" where
  "probe_cmd ffmpeg input_path = [ffmpeg, ''-i'', input_path, ''-hide_banner'']"

definition analyze_audio_quality ::
  "py_lib \<Rightarrow> string \<Rightarrow> string \<Rightarrow> world \<Rightarrow> (py_error + analysis) \<times> world" where
  "analyze_audio_quality lib ffmpeg input_path w =
     (if \<not> os_path_exists input_path w
      then (Inl (FileNotFoundError (msg_file_missing @ input_path)), w)
      else
        (let a = initial_analysis lib input_path;
             cmd = probe_cmd ffmpeg input_path;
             (r, w1) = subprocess_run cmd w
         in (case r of
               Raises e \<Rightarrow> (Inl (RuntimeError (msg_analysis_failed @ e)), w1)
             | Completed rc err \<Rightarrow>
                 (let a = foldl (probe_line lib) a (py_splitlines err);
                      (l, w2) = measure_loudness lib ffmpeg input_path w1;
                      a = a\<lparr>loudness := l\<rparr>;
                      ((dr, nf), w3) = analyze_dynamics lib ffmpeg input_path w2;
                      a = a\<lparr>dynamic_range := dr, noise_floor := nf\<rparr>;
                      ((g, hf), w4) = detect_voice_characteristics lib ffmpeg input_path w3;
                      a = a\<lparr>gender := g, high_freq_energy := hf\<rparr>;
                      (vl, w5) = calculate_perceived_loudness lib ffmpeg input_path w4;
                      a = a\<lparr>volume_level := vl\<rparr>;
                      a = a\<lparr>quality_score := calculate_quality_score a\<rparr>
                  in (Inr a, w5)))))"

section \<open>The dubbing enhancer: the two engine runs for one file\<close>

subsection \<open>get_professional_output_params\<close>

record output_params =
  op_codec :: string
  op_params :: "string list"
  op_ext :: string
  op_sample_rate :: int
  op_bit_depth :: int
  op_is_video :: bool

definition get_professional_output_params :: "analysis \<Rightarrow> output_params" where
  "get_professional_output_params a =
     (if format a \<in> set [''.mp4'', ''.mov'', ''.mkv'', ''.avi''] then
        \<lparr>op_codec = ''aac'', op_params = [''-b:a'', ''192k'', ''-profile:a'', ''aac_low''],
         op_ext = ''.mp4'', op_sample_rate = SAMPLE_RATE, op_bit_depth = BIT_DEPTH,
         op_is_video = True\<rparr>
      else if is_lossless a \<or> bitrate a \<ge> 320 then
        \<lparr>op_codec = ''flac'', op_params = [''-compression_level'', ''6''],
         op_ext = ''.flac'', op_sample_rate = SAMPLE_RATE, op_bit_depth = BIT_DEPTH,
         op_is_video = False\<rparr>
      else if format a \<in> set [''.m4a'', ''.aac''] then
        \<lparr>op_codec = ''aac'', op_params = [''-b:a'', ''192k'', ''-profile:a'', ''aac_low''],
         op_ext = ''.m4a'', op_sample_rate = SAMPLE_RATE, op_bit_depth = BIT_DEPTH,
         op_is_video = False\<rparr>
      else
        \<lparr>op_codec = ''libmp3lame'', op_params = [''-b:a'', ''192k'', ''-q:a'', ''2''],
         op_ext = ''.mp3'', op_sample_rate = SAMPLE_RATE, op_bit_depth = BIT_DEPTH,
         op_is_video = False\<rparr>)"

subsection \<open>_professional_process_safe\<close>

text \<open>The texts of the exceptions, and the suffix of the output file's name.\<close>

definition msg_pre_failed :: string where
  "msg_pre_failed = [CHR 0xE9, CHR 0xA2, CHR 0x84, CHR 0xE5, CHR 0xA4, CHR 0x84, CHR 0xE7,
     CHR 0x90, CHR 0x86, CHR 0xE5, CHR 0xA4, CHR 0xB1, CHR 0xE8, CHR 0xB4, CHR 0xA5,
     CHR 0xEF, CHR 0xBC, CHR 0x9A]"

definition msg_pre_invalid :: string where
  "msg_pre_invalid = [CHR 0xE9, CHR 0xA2, CHR 0x84, CHR 0xE5, CHR 0xA4, CHR 0x84, CHR 0xE7,
     CHR 0x90, CHR 0x86, CHR 0xE6, CHR 0x9C, CHR 0xAA, CHR 0xE7, CHR 0x94, CHR 0x9F,
     CHR 0xE6, CHR 0x88, CHR 0x90, CHR 0xE6, CHR 0x9C, CHR 0x89, CHR 0xE6, CHR 0x95,
     CHR 0x88, CHR 0xE6, CHR 0x96, CHR 0x87, CHR 0xE4, CHR 0xBB, CHR 0xB6]"

definition msg_enc_failed :: string where
  "msg_enc_failed = [CHR 0xE7, CHR 0xBC, CHR 0x96, CHR 0xE7, CHR 0xA0, CHR 0x81, CHR 0xE5,
     CHR 0xA4, CHR 0xB1, CHR 0xE8, CHR 0xB4, CHR 0xA5, CHR 0xEF, CHR 0xBC, CHR 0x9A]"

definition msg_out_invalid :: string where
  "msg_out_invalid = [CHR 0xE8, CHR 0xBE, CHR 0x93, CHR 0xE5, CHR 0x87, CHR 0xBA, CHR 0xE6,
     CHR 0x96, CHR 0x87, CHR 0xE4, CHR 0xBB, CHR 0xB6, CHR 0xE6, CHR 0x97, CHR 0xA0,
     CHR 0xE6, CHR 0x95, CHR 0x88]"

definition msg_norm_failed :: string where
  "msg_norm_failed = [CHR 0xE6, CHR 0xA0, CHR 0x87, CHR 0xE5, CHR 0x87, CHR 0x86, CHR 0xE5,
     CHR 0x8C, CHR 0x96, CHR 0xE5, CHR 0xA4, CHR 0xB1, CHR 0xE8, CHR 0xB4, CHR 0xA5,
     CHR 0xEF, CHR 0xBC, CHR 0x9A]"

definition sfx_pro :: string where
  "sfx_pro = [CHR 0x5F, CHR 0xE4, CHR 0xB8, CHR 0x93, CHR 0xE4, CHR 0xB8, CHR 0x9A,
     CHR 0xE4, CHR 0xBC, CHR 0x98, CHR 0xE5, CHR 0x8C, CHR 0x96, CHR 0xE5, CHR 0x90,
     CHR 0x8E]"

definition sfx_bgm :: string where
  "sfx_bgm = [CHR 0x5F, CHR 0xE8, CHR 0x83, CHR 0x8C, CHR 0xE6, CHR 0x99, CHR 0xAF,
     CHR 0xE9, CHR 0x9F, CHR 0xB3, CHR 0xE4, CHR 0xB9, CHR 0x90, CHR 0xE9, CHR 0x80,
     CHR 0x82, CHR 0xE9, CHR 0x85, CHR 0x8D, CHR 0xE5, CHR 0x90, CHR 0x8E]"

text \<open>\<open>result.stderr[:n].replace(chr(10), ' ')\<close>.\<close>

definition error_excerpt :: "nat \<Rightarrow> string \<Rightarrow> string" where
  "error_excerpt n err = map (\<lambda>c. if c = CHR 0x0A then CHR '' '' else c) (take n err)"

definition professional_temp_wav :: "py_lib \<Rightarrow> string \<Rightarrow> string" where
  "professional_temp_wav lib input_path =
     fst (lib_splitext lib input_path) @ ''_professional_temp.wav''"

definition professional_output_path :: "py_lib \<Rightarrow> string \<Rightarrow> output_params \<Rightarrow> string" where
  "professional_output_path lib input_path output_params =
     fst (lib_splitext lib input_path) @ sfx_pro @ op_ext output_params"

text \<open>The command line \<open>pre_cmd\<close> of the first run.\<close>

definition professional_pre_cmd ::
  "py_lib \<Rightarrow> string \<Rightarrow> string \<Rightarrow> string \<Rightarrow> output_params \<Rightarrow> string list" where
  "professional_pre_cmd lib ffmpeg input_path filter_chain output_params =
     [ffmpeg, ''-y'', ''-hide_banner'', ''-i'', input_path,
      ''-filter_complex'', filter_chain,
      ''-c:a'', ''pcm_s'' @ str_int (op_bit_depth output_params) @ ''le'',
      ''-ar'', str_int (op_sample_rate output_params),
      ''-ac'', ''2'', ''-vn'', ''-avoid_negative_ts'', ''make_zero'',
      professional_temp_wav lib input_path]"

text \<open>The body of the \<open>try\<close> statement.\<close>

definition professional_process_try ::
  "py_lib \<Rightarrow> string \<Rightarrow> string \<Rightarrow> string \<Rightarrow> output_params \<Rightarrow> world
     \<Rightarrow> (py_error + string) \<times> world" where
  "professional_process_try lib ffmpeg input_path filter_chain output_params w =
     (let temp_wav = professional_temp_wav lib input_path;
          output_path = professional_output_path lib input_path output_params;
          pre_cmd = professional_pre_cmd lib ffmpeg input_path filter_chain output_params;
          (r, w1) = subprocess_run pre_cmd w
      in (case r of
            Raises e \<Rightarrow> (Inl SubprocessError, w1)
          | Completed rc err \<Rightarrow>
              if rc \<noteq> 0 then (Inl (Exception (msg_pre_failed @ error_excerpt 200 err)), w1)
              else if \<not> os_path_exists temp_wav w1 \<or> os_path_getsize temp_wav w1 < 1024
              then (Inl (Exception msg_pre_invalid), w1)
              else
                (let post_cmd =
                       (if op_is_video output_params then
                          [ffmpeg, ''-y'', ''-hide_banner'', ''-i'', input_path, ''-i'', temp_wav,
                           ''-map'', ''0:v'', ''-map'', ''1:a'', ''-c:v'', ''copy'',
                           ''-c:a'', op_codec output_params]
                          @ op_params output_params
                          @ [''-ar'', str_int (op_sample_rate output_params), ''-ac'', ''2'',
                             ''-movflags'', ''+faststart'', ''-shortest'', output_path]
                        else
                          [ffmpeg, ''-y'', ''-hide_banner'', ''-i'', temp_wav,
                           ''-c:a'', op_codec output_params]
                          @ op_params output_params
                          @ [''-ar'', str_int (op_sample_rate output_params), ''-ac'', ''2'',
                             ''-write_xing'', ''0'', output_path]);
                     (r2, w2) = subprocess_run post_cmd w1
                 in (case r2 of
                       Raises e \<Rightarrow> (Inl SubprocessError, w2)
                     | Completed rc2 err2 \<Rightarrow>
                         if rc2 \<noteq> 0
                         then (Inl (Exception (msg_enc_failed @ error_excerpt 200 err2)), w2)
                         else if \<not> os_path_exists output_path w2
                                 \<or> os_path_getsize output_path w2 < 8 * 1024
                         then (Inl (Exception msg_out_invalid), w2)
                         else (Inr output_path, w2)))))"

text \<open>
  The whole function. The two old files are removed before the \<open>try\<close>: an \<open>OSError\<close>
  there leaves the function at once, and the \<open>finally\<close> clause does not run. Then the
  \<open>try\<close> body runs, and the \<open>finally\<close> clause removes the scratch file whether the body
  returned or raised; an \<open>OSError\<close> of that removal takes the place of the body's result.
\<close>

definition professional_process_safe ::
  "py_lib \<Rightarrow> string \<Rightarrow> string \<Rightarrow> string \<Rightarrow> output_params \<Rightarrow> world
     \<Rightarrow> (py_error + string) \<times> world" where
  "professional_process_safe lib ffmpeg input_path filter_chain output_params w =
     (let temp_wav = professional_temp_wav lib input_path;
          output_path = professional_output_path lib input_path output_params;
          (removed_temp, wa) = remove_if_exists temp_wav w
      in if \<not> removed_temp then (Inl OSError, wa)
         else
           (let (removed_output, wb) = remove_if_exists output_path wa
            in if \<not> removed_output then (Inl OSError, wb)
               else
                 (let (res, w1) = professional_process_try lib ffmpeg input_path
                                    filter_chain output_params wb;
                      (removed, w2) = remove_if_exists temp_wav w1
                  in (if removed then res else Inl OSError, w2))))"

subsection \<open>run: one file from analysis to output\<close>

definition professional_run_file ::
  "(real \<Rightarrow> string) \<Rightarrow> py_lib \<Rightarrow> string \<Rightarrow> string \<Rightarrow> int \<Rightarrow> int \<Rightarrow> int \<Rightarrow> string \<Rightarrow> string
     \<Rightarrow> world \<Rightarrow> (py_error + string) \<times> world" where
  "professional_run_file fmt lib ffmpeg preset voice_clarity warmth_level reverb_amount
       noise_reduction input_path w =
     (case analyze_audio_quality lib ffmpeg input_path w of
        (Inl e, w1) \<Rightarrow> (Inl e, w1)
      | (Inr a, w1) \<Rightarrow>
          (case build_professional_filter_chain fmt preset voice_clarity warmth_level
                  reverb_amount noise_reduction a of
             Inl e \<Rightarrow> (Inl e, w1)
           | Inr filter_chain \<Rightarrow>
               professional_process_safe lib ffmpeg input_path filter_chain
                 (get_professional_output_params a) w1))"

section \<open>The broadcast background-music tool: the two engine runs for one file\<close>

subsection \<open>get_output_params\<close>

record bgm_output_params =
  bo_codec :: string
  bo_params :: string
  bo_ext :: string
  bo_loudnorm :: string

definition get_output_params :: "(real \<Rightarrow> string) \<Rightarrow> bgm_analysis \<Rightarrow> bgm_output_params" where
  "get_output_params fmt a =
     (let loudnorm =
            ''loudnorm=I='' @ fmt TARGET_LUFS @ '':LRA='' @ str_int LRA_bgm
            @ '':TP='' @ fmt PEAK_THRESHOLD_bgm @ '':measured_I='' @ fmt (b_loudness a)
      in if b_is_lossless a then
           \<lparr>bo_codec = ''flac'', bo_params = ''-compression_level 5'', bo_ext = ''.flac'',
            bo_loudnorm = loudnorm\<rparr>
         else if b_ext a \<in> set [''.m4a'', ''.aac''] then
           \<lparr>bo_codec = ''aac'',
            bo_params = ''-b:a '' @ str_int (b_bitrate a) @ ''k -profile:a aac_low'',
            bo_ext = ''.m4a'', bo_loudnorm = loudnorm\<rparr>
         else
           \<lparr>bo_codec = ''libmp3lame'',
            bo_params = ''-b:a '' @ str_int (b_bitrate a) @ ''k -q:a 2'',
            bo_ext = ''.mp3'', bo_loudnorm = loudnorm\<rparr>)"

subsection \<open>ProcessingThread._process\<close>

definition bgm_temp_wav :: "py_lib \<Rightarrow> string \<Rightarrow> string" where
  "bgm_temp_wav lib input_path = fst (lib_splitext lib input_path) @ ''_bgm_temp.wav''"

definition bgm_process_try ::
  "py_lib \<Rightarrow> string \<Rightarrow> string \<Rightarrow> string \<Rightarrow> bgm_output_params \<Rightarrow> world
     \<Rightarrow> (py_error + string) \<times> world" where
  "bgm_process_try lib ffmpeg input_path filter_chain output_params w =
     (let temp_wav = bgm_temp_wav lib input_path;
          output_path = fst (lib_splitext lib input_path) @ sfx_bgm @ bo_ext output_params;
          pre_cmd =
            [ffmpeg, ''-y'', ''-hide_banner'', ''-i'', input_path,
             ''-filter_complex'', filter_chain, ''-c:a'', ''pcm_s16le'', ''-ar'', ''44100'',
             ''-ac'', ''2'', temp_wav];
          (r, w1) = subprocess_run pre_cmd w
      in (case r of
            Raises e \<Rightarrow> (Inl SubprocessError, w1)
          | Completed rc err \<Rightarrow>
              if rc \<noteq> 0 then (Inl (Exception (msg_pre_failed @ error_excerpt 100 err)), w1)
              else
                (let post_cmd =
                       [ffmpeg, ''-y'', ''-hide_banner'', ''-i'', temp_wav,
                        ''-af'', bo_loudnorm output_params, ''-c:a'', bo_codec output_params]
                       @ py_split_ws (bo_params output_params) @ [output_path];
                     (r2, w2) = subprocess_run post_cmd w1
                 in (case r2 of
                       Raises e \<Rightarrow> (Inl SubprocessError, w2)
                     | Completed rc2 err2 \<Rightarrow>
                         if rc2 \<noteq> 0
                         then (Inl (Exception (msg_norm_failed @ error_excerpt 100 err2)), w2)
                         else if \<not> os_path_exists output_path w2
                                 \<or> os_path_getsize output_path w2 < 10 * 1024
                         then (Inl (Exception msg_out_invalid), w2)
                         else (Inr output_path, w2)))))"

text \<open>
  The whole function: the \<open>try\<close> body, then the \<open>finally\<close> clause, whose \<open>OSError\<close>
  takes the place of the body's result.
\<close>

definition bgm_process ::
  "py_lib \<Rightarrow> string \<Rightarrow> string \<Rightarrow> string \<Rightarrow> bgm_output_params \<Rightarrow> world
     \<Rightarrow> (py_error + string) \<times> world" where
  "bgm_process lib ffmpeg input_path filter_chain output_params w =
     (let (res, w1) = bgm_process_try lib ffmpeg input_path filter_chain output_params w;
          (removed, w2) = remove_if_exists (bgm_temp_wav lib input_path) w1
      in (if removed then res else Inl OSError, w2))"

section \<open>Notions used to state the properties\<close>

text \<open>
  The answer of the engine to the \<open>k\<close>-th call from now on, the world after the five
  analysis calls, the analysis record written as a function of the five answers, and
  what it means that a pass gave nothing to parse.
\<close>

definition next_result :: "response list \<Rightarrow> proc_result" where
  "next_result rs = (case rs of [] \<Rightarrow> Raises [] | Response r effect # rest \<Rightarrow> r)"

definition answer :: "world \<Rightarrow> nat \<Rightarrow> proc_result" where
  "answer w k = next_result (drop k (script w))"

definition after_analysis :: "string \<Rightarrow> string \<Rightarrow> world \<Rightarrow> world" where
  "after_analysis ffmpeg input_path w =
     snd (subprocess_run (volumedetect_cmd ffmpeg input_path)
      (snd (subprocess_run (volumedetect_cmd ffmpeg input_path)
        (snd (subprocess_run (volumedetect_cmd ffmpeg input_path)
          (snd (subprocess_run (loudnorm_cmd ffmpeg input_path)
            (snd (subprocess_run (probe_cmd ffmpeg input_path) w)))))))))"

definition analysis_of_answers ::
  "py_lib \<Rightarrow> string \<Rightarrow> string \<Rightarrow> proc_result \<Rightarrow> proc_result \<Rightarrow> proc_result \<Rightarrow> proc_result
     \<Rightarrow> analysis" where
  "analysis_of_answers lib input_path err r1 r2 r3 r4 =
     (let a = foldl (probe_line lib) (initial_analysis lib input_path) (py_splitlines err);
          s2 = volume_stats_of_result lib r2;
          max3 = stat_max (volume_stats_of_result lib r3);
          a = a\<lparr>loudness := loudness_of_result lib r1,
                dynamic_range := \<bar>stat_max s2 - stat_min s2\<bar>,
                noise_floor := stat_min s2,
                gender := (if max3 > - 6 then ''male''
                           else if max3 < - 12 then ''female'' else ''unknown''),
                high_freq_energy := max3,
                volume_level := stat_mean (volume_stats_of_result lib r4)\<rparr>
      in a\<lparr>quality_score := calculate_quality_score a\<rparr>)"

definition loudness_pass_failed :: "py_lib \<Rightarrow> proc_result \<Rightarrow> bool" where
  "loudness_pass_failed lib r =
     (case r of
        Raises e \<Rightarrow> True
      | Completed rc err \<Rightarrow>
          list_all (\<lambda>line. sublist ''Input Integrated Loudness'' line
                           \<longrightarrow> parse_loudness_line lib line = None)
            (py_splitlines err))"

definition probe_without_audio :: "string \<Rightarrow> bool" where
  "probe_without_audio err = list_all (\<lambda>line. \<not> sublist ''Audio'' line) (py_splitlines err)"

section \<open>Sample inputs\<close>

text \<open>
  A concrete library for the closed statements. Its functions agree with Python's on the
  texts the samples contain: \<open>sample_splitext\<close> on a file name without directory whose
  only dot is not at the front, \<open>sample_lower\<close> on ASCII, \<open>dec_float\<close> and \<open>dec_int\<close> on an
  optional minus sign followed by decimal digits (and, for \<open>dec_float\<close>, a point and
  more digits).
\<close>

definition sample_splitext :: "string \<Rightarrow> string \<times> string" where
  "sample_splitext p =
     (let e = takeWhile (\<lambda>c. c \<noteq> CHR ''.'') (rev p)
      in if length e = length p then (p, [])
         else (take (length p - length e - 1) p, drop (length p - length e - 1) p))"

definition sample_lower :: "string \<Rightarrow> string" where
  "sample_lower s =
     map (\<lambda>c. case map_of (zip ''ABCDEFGHIJKLMNOPQRSTUVWXYZ'' ''abcdefghijklmnopqrstuvwxyz'') c of
                None \<Rightarrow> c
              | Some l \<Rightarrow> l) s"

fun nat_of_digits :: "nat \<Rightarrow> string \<Rightarrow> nat option" where
  "nat_of_digits acc [] = Some acc"
| "nat_of_digits acc (c # cs) =
     (case map_of (zip ''0123456789'' [0 ..< 10]) c of
        None \<Rightarrow> None
      | Some d \<Rightarrow> nat_of_digits (acc * 10 + d) cs)"

definition dec_nat :: "string \<Rightarrow> nat option" where
  "dec_nat s = (if s = [] then None else nat_of_digits 0 s)"

definition dec_int :: "string \<Rightarrow> int option" where
  "dec_int s =
     (if s \<noteq> [] \<and> hd s = CHR ''-'' then map_option (\<lambda>n. - int n) (dec_nat (tl s))
      else map_option int (dec_nat s))"

definition dec_float :: "string \<Rightarrow> real option" where
  "dec_float s =
     (let neg = (s \<noteq> [] \<and> hd s = CHR ''-'');
          body = (if neg then tl s else s);
          ip = takeWhile (\<lambda>c. c \<noteq> CHR ''.'') body;
          rest = dropWhile (\<lambda>c. c \<noteq> CHR ''.'') body;
          fp = (if rest = [] then ''0'' else tl rest)
      in (case (dec_nat ip, dec_nat fp) of
            (Some i, Some f) \<Rightarrow>
              Some ((if neg then - 1 else 1) * (real i + real f / 10 ^ length fp))
          | _ \<Rightarrow> None))"

definition sample_lib :: py_lib where
  "sample_lib =
     \<lparr>lib_splitext = sample_splitext, lib_lower = sample_lower, lib_float = dec_float,
      lib_int = dec_int\<rparr>"

text \<open>Summaries of the engine for a file \<open>voice.mp3\<close>, one text per analysis pass.\<close>

definition sample_probe_text :: string where
  "sample_probe_text =
     ''Input #0, mp3, from voice.mp3:'' @ nl
     @ ''  Duration: 00:01:23.45, start: 0.000000, bitrate: 128 kb/s'' @ nl
     @ ''  Stream #0:0: Audio: mp3, 44100 Hz, stereo, fltp, 128 kb/s'' @ nl"

definition sample_loudnorm_text :: string where
  "sample_loudnorm_text = ''Input Integrated Loudness: -23.5 LUFS'' @ nl"

definition sample_volume_text :: string where
  "sample_volume_text =
     ''[Parsed_volumedetect_0] mean_volume: -27.3 dB'' @ nl
     @ ''[Parsed_volumedetect_0] max_volume: -3.2 dB'' @ nl
     @ ''[Parsed_volumedetect_0] min_volume: -58.0 dB'' @ nl"

text \<open>
  A world in which every pass answers and both runs write their file, one in which the
  engine cannot be started, one in which only the probe answers, and one in which the
  first run leaves a scratch file of 500 bytes.
\<close>

definition world_ok :: world where
  "world_ok =
     \<lparr>files = [''voice.mp3'' \<mapsto> 2000000],
      script =
        [Response (Completed 1 sample_probe_text) id,
         Response (Completed 0 sample_loudnorm_text) id,
         Response (Completed 0 sample_volume_text) id,
         Response (Completed 0 sample_volume_text) id,
         Response (Completed 0 sample_volume_text) id,
         Response (Completed 0 []) (\<lambda>fs. fs(''voice_professional_temp.wav'' \<mapsto> 14000000)),
         Response (Completed 0 [])
           (\<lambda>fs. fs(''voice'' @ sfx_pro @ ''.mp3'' \<mapsto> 1900000))],
      calls = [], removals = []\<rparr>"

definition world_no_engine :: world where
  "world_no_engine =
     \<lparr>files = [''voice.mp3'' \<mapsto> 2000000],
      script = [Response (Raises ''No such file or directory'') id],
      calls = [], removals = []\<rparr>"

definition world_probe_only :: world where
  "world_probe_only =
     \<lparr>files = [''voice.mp3'' \<mapsto> 2000000],
      script =
        [Response (Completed 1 []) id,
         Response (Raises ''timed out'') id,
         Response (Raises ''timed out'') id,
         Response (Raises ''timed out'') id,
         Response (Raises ''timed out'') id],
      calls = [], removals = []\<rparr>"

definition world_small_temp :: world where
  "world_small_temp =
     \<lparr>files = [''voice.mp3'' \<mapsto> 2000000],
      script =
        [Response (Completed 0 []) (\<lambda>fs. fs(''voice_professional_temp.wav'' \<mapsto> 500))],
      calls = [], removals = []\<rparr>"

text \<open>
  The same first run in a world that refuses the removal of the scratch file, and a world
  for the background-music tool whose first run fails after writing 44 bytes.
\<close>

definition world_locked_temp :: world where
  "world_locked_temp =
     \<lparr>files = [''voice.mp3'' \<mapsto> 2000000],
      script =
        [Response (Completed 0 []) (\<lambda>fs. fs(''voice_professional_temp.wav'' \<mapsto> 500))],
      calls = [], removals = [False]\<rparr>"

definition world_bgm_failed :: world where
  "world_bgm_failed =
     \<lparr>files = [''voice.mp3'' \<mapsto> 2000000],
      script =
        [Response (Completed 1 ''Invalid argument'')
           (\<lambda>fs. fs(''voice_bgm_temp.wav'' \<mapsto> 44))],
      calls = [], removals = []\<rparr>"

definition sample_analysis :: analysis where
  "sample_analysis =
     \<lparr>format = ''.mp3'', is_lossless = False, bitrate = 192, sample_rate = 44100,
      channels = 2, duration = 0, loudness = - 20, dynamic_range = 12,
      noise_floor = - 60, gender = ''unknown'', high_freq_energy = - 20,
      volume_level = 0, quality_score = 0\<rparr>"

definition sample_vocal :: vocal_analysis where
  "sample_vocal = \<lparr>v_is_lossless = False, v_ext = ''.mp3'', v_bitrate = 192,
     v_loudness = - 22, v_dynamic_range = 10, v_noise_floor = - 38,
     v_high_freq_energy = - 20, v_input_path = ''voice.mp3''\<rparr>"

definition sample_bgm :: bgm_analysis where
  "sample_bgm = \<lparr>b_is_lossless = False, b_ext = ''.mp3'', b_bitrate = 192,
     b_dynamic_range = 30, b_loudness = - 20\<rparr>"

text \<open>The results of the sample runs, written out.\<close>

definition analysis_ok :: analysis where
  "analysis_ok =
     \<lparr>format = ''.mp3'', is_lossless = False, bitrate = 128, sample_rate = 44100,
      channels = 2, duration = 0, loudness = - 23.5, dynamic_range = 54.8,
      noise_floor = - 58, gender = ''male'', high_freq_energy = - 3.2,
      volume_level = - 27.3, quality_score = 70\<rparr>"

definition sample_mastering_chain :: string where
  "sample_mastering_chain =
     ''equalizer=f=2000:g=-6:w=1.0,asplit=3[low][mid][high];[low]lowpass=250,acompressor=threshold=-22dB:ratio=3:attack=30:release=500:knee=12dB:makeup=4dB[low_out];[mid]highpass=250,lowpass=2000,acompressor=threshold=-20dB:ratio=2.5:attack=50:release=800:knee=8dB:makeup=3dB,equalizer=f=2000:g=-6:w=1.0[mid_out];[high]highpass=2000,acompressor=threshold=-18dB:ratio=2:attack=28:release=500:knee=6dB:makeup=2dB[high_out];[low_out][mid_out][high_out]amix=inputs=3:weights=1.2 1 0.8,pan=stereo|c0=0.8*c0+0.2*c1|c1=0.2*c0+0.8*c1''"

definition sample_bgm_chain :: string where
  "sample_bgm_chain =
     ''afftdn=nf=-35:nt=w,highpass=f=50,equalizer=f=1500:g=-4:w=2.0,equalizer=f=300:g=1.5:w=1.0,equalizer=f=8000:g=1.5:w=2.0,asplit=3[low][mid][high];[low]lowpass=f=300,acompressor=threshold=-24dB:ratio=3.5:attack=50:release=1000[low_out];[mid]highpass=f=300,lowpass=f=3000,acompressor=threshold=-22dB:ratio=3.0:attack=30:release=800[mid_out];[high]highpass=f=3000,acompressor=threshold=-20dB:ratio=2.0:attack=20:release=500[high_out];[low_out][mid_out][high_out]amix=inputs=3:weights=1.11.00.9,pan=stereo|c0=0.7*c0+0.3*c1|c1=0.3*c0+0.7*c1''"

definition sample_vocal_chain :: string where
  "sample_vocal_chain =
     ''afftdn=nf=-30:nt=w,highpass=f=80,equalizer=f=160:g=2.0:w=1.6,equalizer=f=1200:g=2.5:w=1.0,equalizer=f=8000:g=2.0:w=2.0,equalizer=f=3500:g=2.0:w=1.0,asplit=3[low][mid][high];[low]lowpass=f=300,acompressor=threshold=-24dB:ratio=3.5:attack=50:release=1000[low_out];[mid]highpass=f=300,lowpass=f=3000,acompressor=threshold=-22dB:ratio=2.0:attack=30:release=800[mid_out];[high]highpass=f=3000,acompressor=threshold=-20dB:ratio=2.0:attack=20:release=500[high_out];[low_out][mid_out][high_out]amix=inputs=3:weights=1.11.00.9,deesser=i=0.4:m=0.4:f=0.5,pan=stereo|c0=0.7*c0+0.3*c1|c1=0.3*c0+0.7*c1,adelay=1ms|0ms''"

section \<open>Properties\<close>

subsection \<open>The quality score\<close>

lemmas bonus_spec_defs =
  format_bonus_spec_def sample_rate_bonus_spec_def loudness_bonus_spec_def
  dynamic_range_bonus_spec_def noise_floor_bonus_spec_def

lemma format_bonus_spec_range: "0 \<le> format_bonus_spec a \<and> format_bonus_spec a \<le> 15"
  by (simp add: format_bonus_spec_def)

lemma sample_rate_bonus_spec_range:
  "0 \<le> sample_rate_bonus_spec a \<and> sample_rate_bonus_spec a \<le> 5"
  by (simp add: sample_rate_bonus_spec_def)

lemma loudness_bonus_spec_range: "0 \<le> loudness_bonus_spec a \<and> loudness_bonus_spec a \<le> 10"
  by (simp add: loudness_bonus_spec_def)

lemma dynamic_range_bonus_spec_range:
  "0 \<le> dynamic_range_bonus_spec a \<and> dynamic_range_bonus_spec a \<le> 10"
  by (simp add: dynamic_range_bonus_spec_def)

lemma noise_floor_bonus_spec_range:
  "0 \<le> noise_floor_bonus_spec a \<and> noise_floor_bonus_spec a \<le> 10"
  by (simp add: noise_floor_bonus_spec_def)

lemma calculate_quality_score_additive:
  "calculate_quality_score a = quality_score_spec a"
  unfolding calculate_quality_score_def quality_score_spec_def bonus_spec_defs Let_def
  by (simp add: min.commute)

lemma quality_score_spec_range: "50 \<le> quality_score_spec a \<and> quality_score_spec a \<le> 100"
proof -
  have "0 \<le> format_bonus_spec a" "0 \<le> sample_rate_bonus_spec a"
    "0 \<le> loudness_bonus_spec a" "0 \<le> dynamic_range_bonus_spec a"
    "0 \<le> noise_floor_bonus_spec a"
    using format_bonus_spec_range sample_rate_bonus_spec_range loudness_bonus_spec_range
      dynamic_range_bonus_spec_range noise_floor_bonus_spec_range by blast+
  then show ?thesis
    unfolding quality_score_spec_def by simp
qed

text \<open>
  C2. The score is the additive formula (baseline 50, the format, sample-rate, loudness,
  dynamic-range and noise-floor bonuses, capped at 100), and so it lies between 0 and 100.
\<close>

theorem C2_quality_score_formula:
  "calculate_quality_score a =
     min 100 (50 + format_bonus_spec a + sample_rate_bonus_spec a + loudness_bonus_spec a
                 + dynamic_range_bonus_spec a + noise_floor_bonus_spec a)
   \<and> 0 \<le> calculate_quality_score a \<and> calculate_quality_score a \<le> 100"
  using calculate_quality_score_additive [of a] quality_score_spec_range [of a]
  by (simp add: quality_score_spec_def)

lemma dynamic_range_bonus_spec_mono:
  "dynamic_range a \<le> dynamic_range b \<Longrightarrow>
   dynamic_range_bonus_spec a \<le> dynamic_range_bonus_spec b"
  by (simp add: dynamic_range_bonus_spec_def)

text \<open>
  C9. Two analysis records that differ only in the dynamic range: the larger dynamic
  range never gets the smaller score.
\<close>

theorem C9_score_monotone_in_dynamic_range:
  "d1 \<le> d2 \<Longrightarrow>
   calculate_quality_score (a\<lparr>dynamic_range := d1\<rparr>)
     \<le> calculate_quality_score (a\<lparr>dynamic_range := d2\<rparr>)"
proof -
  assume le: "d1 \<le> d2"
  let ?a = "a\<lparr>dynamic_range := d1\<rparr>" and ?b = "a\<lparr>dynamic_range := d2\<rparr>"
  have same: "format_bonus_spec ?a = format_bonus_spec ?b"
    "sample_rate_bonus_spec ?a = sample_rate_bonus_spec ?b"
    "loudness_bonus_spec ?a = loudness_bonus_spec ?b"
    "noise_floor_bonus_spec ?a = noise_floor_bonus_spec ?b"
    by (simp_all add: bonus_spec_defs)
  have "dynamic_range_bonus_spec ?a \<le> dynamic_range_bonus_spec ?b"
    using le by (intro dynamic_range_bonus_spec_mono) simp
  with same have "quality_score_spec ?a \<le> quality_score_spec ?b"
    unfolding quality_score_spec_def by (intro min.mono) simp_all
  then show ?thesis
    by (simp only: calculate_quality_score_additive)
qed

theorem C9_score_monotone_witness:
  "(10::real) \<le> 16 \<and>
   calculate_quality_score (sample_analysis\<lparr>dynamic_range := 10\<rparr>) = 70 \<and>
   calculate_quality_score (sample_analysis\<lparr>dynamic_range := 16\<rparr>) = 80 \<and>
   calculate_quality_score (sample_analysis\<lparr>dynamic_range := 10\<rparr>)
     \<le> calculate_quality_score (sample_analysis\<lparr>dynamic_range := 16\<rparr>)"
  using C9_score_monotone_in_dynamic_range [of 10 16 sample_analysis]
  by (simp add: calculate_quality_score_def sample_analysis_def)

subsection \<open>The filter-chain builders\<close>

lemma remove_newlines_spaces_append [simp]:
  "remove_newlines_spaces (xs @ ys) = remove_newlines_spaces xs @ remove_newlines_spaces ys"
  by (simp add: remove_newlines_spaces_def)

lemma remove_newlines_spaces_clean:
  "CHR '' '' \<notin> set (remove_newlines_spaces s) \<and> CHR 0x0A \<notin> set (remove_newlines_spaces s)"
  by (simp add: remove_newlines_spaces_def)

lemma py_index_reverb_default:
  "py_index reverb_presets 2 =
     Inr \<lparr>delays = ''25|50|75|100|130'', decays = ''0.24|0.20|0.16|0.13|0.10'', wet = ''0.16''\<rparr>"
  by (simp add: py_index_def reverb_presets_def)

lemma build_gentle_reverb_filter_total: "\<exists>r. build_gentle_reverb_filter n = Inr r"
  by (simp add: build_gentle_reverb_filter_def py_index_reverb_default)

lemma professional_filters_total:
  "\<exists>fs. professional_filters fmt preset vc wl ra nr a = Inr fs"
  using build_gentle_reverb_filter_total [of ra]
  by (auto simp add: professional_filters_def Let_def)

lemma build_professional_filter_chain_total:
  "\<exists>chain. build_professional_filter_chain fmt preset vc wl ra nr a = Inr chain"
  using professional_filters_total [of fmt preset vc wl ra nr a]
  by (auto simp add: build_professional_filter_chain_def)

lemma py_index_vocal_default:
  "py_index vocal_sound_field_presets sf_slight = Inr ''stereo|c0=0.8*c0+0.2*c1|c1=0.2*c0+0.8*c1''"
  by (simp add: py_index_def vocal_sound_field_presets_def sf_slight_def sf_original_def)

lemma vocal_filters_total:
  "\<exists>fs. vocal_filters fmt scene lvl de sf dn a = Inr fs"
  by (simp add: vocal_filters_def Let_def py_index_vocal_default)

lemma py_index_sound_field:
  "sf \<in> set sound_field_combo_items \<Longrightarrow> \<exists>p. py_index sound_field_presets sf = Inr p"
  by (auto simp add: sound_field_combo_items_def py_index_def sound_field_presets_def)

lemma processing_filters_total:
  "sf \<in> set sound_field_combo_items \<Longrightarrow> \<exists>fs. processing_filters fmt uc sf av a = Inr fs"
  using py_index_sound_field [of sf]
  by (auto simp add: processing_filters_def Let_def)

lemma build_processing_chain_unknown:
  "build_processing_chain fmt uc sf_broadcast av a = Inl KeyError"
  by (simp add: build_processing_chain_def processing_filters_def Let_def py_index_def
      sound_field_presets_def sf_broadcast_def sf_original_def sf_slight_def sf_wide_def)

lemma sublist_py_join: "m \<in> set fs \<Longrightarrow> sublist m (py_join sep fs)"
proof (induction sep fs rule: py_join.induct)
  case (1 sep)
  then show ?case by simp
next
  case (2 sep x)
  then show ?case by simp
next
  case (3 sep x y ys)
  show ?case
  proof (cases "m = x")
    case True
    then show ?thesis by simp
  next
    case False
    with 3 have "sublist m (py_join sep (y # ys))" by simp
    then obtain p s where "py_join sep (y # ys) = p @ m @ s"
      by (auto simp add: sublist_def)
    then have "py_join sep (x # y # ys) = (x @ sep @ p) @ m @ s" by simp
    then show ?thesis unfolding sublist_def by blast
  qed
qed

lemma sublist_remove_newlines_spaces:
  assumes "sublist xs ys"
  shows "sublist (remove_newlines_spaces xs) (remove_newlines_spaces ys)"
proof -
  from assms obtain p s where "ys = p @ xs @ s"
    by (auto simp add: sublist_def)
  then have "remove_newlines_spaces ys
      = remove_newlines_spaces p @ remove_newlines_spaces xs @ remove_newlines_spaces s"
    by simp
  then show ?thesis unfolding sublist_def by blast
qed

lemma multiband_template_weights:
  "sublist ''amix=inputs=3:weights=1.11.00.9'' (remove_newlines_spaces (multiband_template n r))"
proof -
  let ?L = "''[low_out][mid_out][high_out]amix=inputs=3:weights=1.1 1.0 0.9''"
  have "suffix ?L (multiband_template n r)"
    unfolding multiband_template_def by (intro suffix_appendI) simp
  then obtain p where p: "multiband_template n r = p @ ?L"
    by (auto simp add: suffix_def)
  have "remove_newlines_spaces ?L
          = ''[low_out][mid_out][high_out]'' @ ''amix=inputs=3:weights=1.11.00.9''"
    by (simp add: remove_newlines_spaces_def)
  then have "remove_newlines_spaces (multiband_template n r)
      = (remove_newlines_spaces p @ ''[low_out][mid_out][high_out]'')
        @ ''amix=inputs=3:weights=1.11.00.9'' @ []"
    unfolding p remove_newlines_spaces_append by simp
  then show ?thesis unfolding sublist_def by blast
qed

lemma multiband_in_chain:
  assumes "multiband_template n r \<in> set fs"
  shows "sublist ''amix=inputs=3:weights=1.11.00.9'' (remove_newlines_spaces (py_join sep fs))"
proof -
  have "sublist (remove_newlines_spaces (multiband_template n r))
          (remove_newlines_spaces (py_join sep fs))"
    using assms by (intro sublist_remove_newlines_spaces sublist_py_join)
  with multiband_template_weights [of n r] show ?thesis
    by (rule sublist_order.order_trans)
qed

lemma spaced_weights_absent:
  "\<not> sublist ''weights=1.1 1.0 0.9'' (remove_newlines_spaces s)"
proof
  assume "sublist ''weights=1.1 1.0 0.9'' (remove_newlines_spaces s)"
  then have "set ''weights=1.1 1.0 0.9'' \<subseteq> set (remove_newlines_spaces s)"
    by (rule set_mono_sublist)
  then have "CHR '' '' \<in> set (remove_newlines_spaces s)" by auto
  then show False by (simp add: remove_newlines_spaces_def)
qed

lemma multiband_template_nonempty: "multiband_template n r \<noteq> []"
  by (simp add: multiband_template_def)

lemma processing_filters_multiband:
  "processing_filters fmt True sf av a = Inr fs \<Longrightarrow>
   multiband_template 16 (fmt (if b_dynamic_range a > 20 then 3.0 else 2.0)) \<in> set fs"
  by (auto simp add: processing_filters_def Let_def split: sum.splits if_splits)

lemma vocal_filters_multiband:
  "vocal_filters fmt scene lvl de sf dn a = Inr fs \<Longrightarrow>
   multiband_template 12 (fmt (mid_ratio (v_dynamic_range a))) \<in> set (filter (\<lambda>f. f \<noteq> []) fs)"
  by (auto simp add: vocal_filters_def Let_def multiband_template_nonempty
      split: sum.splits if_splits)

text \<open>
  C10. With the multi-band compressor in the chain, the final removal of spaces turns the
  band weights \<open>weights=1.1 1.0 0.9\<close> of the \<open>amix\<close> stage into the one token
  \<open>weights=1.11.00.9\<close>: the chain given to the engine contains that token and no
  longer the three separate weights. This holds for \<open>build_processing_chain\<close> with
  compression switched on and for \<open>build_vocal_filter_chain\<close>, which always compresses.
\<close>

theorem C10_weights_concatenated:
  "(build_processing_chain fmt True sound_field avoid_vocal a = Inr chain \<longrightarrow>
      sublist ''amix=inputs=3:weights=1.11.00.9'' chain
      \<and> \<not> sublist ''weights=1.1 1.0 0.9'' chain)
   \<and> (build_vocal_filter_chain fmt scene_mode voice_clarity_level deesser_on sound_field'
         denoise_level va = Inr chain' \<longrightarrow>
      sublist ''amix=inputs=3:weights=1.11.00.9'' chain'
      \<and> \<not> sublist ''weights=1.1 1.0 0.9'' chain')"
proof (intro conjI impI)
  assume h: "build_processing_chain fmt True sound_field avoid_vocal a = Inr chain"
  then obtain fs where fs: "processing_filters fmt True sound_field avoid_vocal a = Inr fs"
    and chain: "chain = remove_newlines_spaces (py_join '','' fs)"
    by (auto simp add: build_processing_chain_def split: sum.splits)
  show "sublist ''amix=inputs=3:weights=1.11.00.9'' chain"
    unfolding chain using processing_filters_multiband [OF fs] by (rule multiband_in_chain)
  show "\<not> sublist ''weights=1.1 1.0 0.9'' chain"
    unfolding chain by (rule spaced_weights_absent)
next
  assume h: "build_vocal_filter_chain fmt scene_mode voice_clarity_level deesser_on sound_field'
         denoise_level va = Inr chain'"
  then obtain fs where fs: "vocal_filters fmt scene_mode voice_clarity_level deesser_on sound_field'
         denoise_level va = Inr fs"
    and chain: "chain' = remove_newlines_spaces (py_join '','' (filter (\<lambda>f. f \<noteq> []) fs))"
    by (auto simp add: build_vocal_filter_chain_def split: sum.splits)
  show "sublist ''amix=inputs=3:weights=1.11.00.9'' chain'"
    unfolding chain using vocal_filters_multiband [OF fs] by (rule multiband_in_chain)
  show "\<not> sublist ''weights=1.1 1.0 0.9'' chain'"
    unfolding chain by (rule spaced_weights_absent)
qed

text \<open>
  C1. The three chain builders return a chain and raise nothing:
  \<open>build_professional_filter_chain\<close> and \<open>build_vocal_filter_chain\<close> for every
  argument (their look-ups have defaults, and the keys they index directly are present),
  \<open>build_processing_chain\<close> for every stereo-field name its window can pass, which are
  the items of \<open>sound_field_combo\<close>.
\<close>

theorem C1_builders_total:
  "(\<exists>chain. build_professional_filter_chain fmt preset voice_clarity warmth_level
              reverb_amount noise_reduction a = Inr chain)
   \<and> (\<exists>chain. build_vocal_filter_chain fmt scene_mode voice_clarity_level deesser_on
              sound_field denoise_level va = Inr chain)
   \<and> (sound_field' \<in> set sound_field_combo_items \<longrightarrow>
        (\<exists>chain. build_processing_chain fmt use_compress sound_field' avoid_vocal ba
                   = Inr chain))"
proof (intro conjI impI)
  show "\<exists>chain. build_professional_filter_chain fmt preset voice_clarity warmth_level
              reverb_amount noise_reduction a = Inr chain"
    by (rule build_professional_filter_chain_total)
  show "\<exists>chain. build_vocal_filter_chain fmt scene_mode voice_clarity_level deesser_on
              sound_field denoise_level va = Inr chain"
    using vocal_filters_total [of fmt scene_mode voice_clarity_level deesser_on sound_field
        denoise_level va]
    by (auto simp add: build_vocal_filter_chain_def)
next
  assume "sound_field' \<in> set sound_field_combo_items"
  then show "\<exists>chain. build_processing_chain fmt use_compress sound_field' avoid_vocal ba
                   = Inr chain"
    using processing_filters_total [of sound_field' fmt use_compress avoid_vocal ba]
    by (auto simp add: build_processing_chain_def)
qed

text \<open>One call of each builder on the sample inputs.\<close>

theorem C1_builders_witness:
  "sf_wide \<in> set sound_field_combo_items
   \<and> (\<exists>chain. build_processing_chain str_float1 True sf_wide False sample_bgm = Inr chain)
   \<and> (\<exists>chain. build_vocal_filter_chain str_float1 scene_speech 3 True sf_broadcast nr_medium
                sample_vocal = Inr chain)
   \<and> (\<exists>chain. build_professional_filter_chain str_float1 preset_news 3 3 2 nr_heavy
                sample_analysis = Inr chain)"
proof -
  have h: "sf_wide \<in> set sound_field_combo_items"
    by (simp add: sound_field_combo_items_def)
  from C1_builders_total [of str_float1 preset_news 3 3 2 nr_heavy sample_analysis scene_speech 3 True
      sf_broadcast nr_medium sample_vocal sf_wide True False sample_bgm] h
  show ?thesis by blast
qed

lemma base_dn_tiers:
  "base_dn ''low'' = - 20 \<and> base_dn ''mid'' = - 30 \<and> base_dn ''high'' = - 40"
  by (simp add: base_dn_def py_get_def dn_map_def)

lemma base_dn_other: "t \<notin> {''low'', ''mid'', ''high''} \<Longrightarrow> base_dn t = - 30"
  by (simp add: base_dn_def py_get_def dn_map_def)

text \<open>
  The window of the vocal enhancer passes the tier as the first character of the item of
  \<open>denoise_combo\<close>, which is no key of \<open>dn_map\<close>: from the window every tier gets the
  default base level.
\<close>

lemma base_dn_window_names:
  "base_dn nr_light = - 30 \<and> base_dn nr_medium = - 30 \<and> base_dn nr_heavy = - 30"
  by (simp add: base_dn_def py_get_def dn_map_def nr_light_def nr_medium_def nr_heavy_def)

text \<open>
  C6, as the code has it. In \<open>build_vocal_filter_chain\<close>, for each of the tiers \<open>low\<close>,
  \<open>mid\<close> and \<open>high\<close> of \<open>dn_map\<close>, with the base levels -20, -30 and -40, the strength
  of \<open>afftdn\<close> is the base level when the noise floor is above -45, the base level plus 10
  when it is below -55 and the base level plus 5 otherwise; and the stage ends in
  \<open>highpass=f=80\<close> whatever the tier is called. In \<open>build_professional_filter_chain\<close> the
  noise stage is the tier's pair of a high-pass and a low-pass filter (100, 150 or
  200 Hz), whatever the noise floor.
\<close>

theorem C6_noise_stage:
  "(tier \<in> {''low'', ''mid'', ''high''} \<longrightarrow>
      (\<exists>base rest.
          base = (if tier = ''low'' then - 20 else if tier = ''mid'' then - 30 else - 40)
          \<and> vocal_filters fmt scene_mode voice_clarity_level deesser_on sound_field tier va
              = Inr ((''afftdn=nf=''
                      @ str_int (if v_noise_floor va > - 45 then base
                                 else if v_noise_floor va < - 55 then base + 10
                                 else base + 5)
                      @ '':nt=w,highpass=f=80'') # rest)))
   \<and> (\<exists>strength rest.
          vocal_filters fmt scene_mode voice_clarity_level deesser_on sound_field tier va
            = Inr ((''afftdn=nf='' @ strength @ '':nt=w,highpass=f=80'') # rest))
   \<and> (\<exists>rest. professional_filters fmt preset voice_clarity warmth_level reverb_amount tier a
        = Inr (nr_filter tier # rest))
   \<and> nr_filter tier
       = (if tier = nr_light \<or> tier = ''low'' then ''highpass=f=100,lowpass=f=14000''
          else if tier = nr_heavy \<or> tier = ''high'' then ''highpass=f=200,lowpass=f=10000''
          else ''highpass=f=150,lowpass=f=12000'')"
proof (intro conjI impI)
  have stage: "\<exists>rest. vocal_filters fmt scene_mode voice_clarity_level deesser_on sound_field
                   tier va
        = Inr ((''afftdn=nf='' @ str_int (final_dn tier (v_noise_floor va))
                @ '':nt=w,highpass=f=80'') # rest)"
    by (simp add: vocal_filters_def Let_def py_index_vocal_default denoise_filter_def)
  then show "\<exists>strength rest.
          vocal_filters fmt scene_mode voice_clarity_level deesser_on sound_field tier va
            = Inr ((''afftdn=nf='' @ strength @ '':nt=w,highpass=f=80'') # rest)"
    by blast
  show "\<exists>rest. professional_filters fmt preset voice_clarity warmth_level reverb_amount tier a
        = Inr (nr_filter tier # rest)"
    using build_gentle_reverb_filter_total [of reverb_amount]
    by (auto simp add: professional_filters_def Let_def)
  show "nr_filter tier
       = (if tier = nr_light \<or> tier = ''low'' then ''highpass=f=100,lowpass=f=14000''
          else if tier = nr_heavy \<or> tier = ''high'' then ''highpass=f=200,lowpass=f=10000''
          else ''highpass=f=150,lowpass=f=12000'')"
    by (simp add: nr_filter_def py_get_def nr_map_def nr_light_def nr_medium_def
        nr_heavy_def)
  assume key: "tier \<in> {''low'', ''mid'', ''high''}"
  have base: "base_dn tier
      = (if tier = ''low'' then - 20 else if tier = ''mid'' then - 30 else - 40)"
    using key by (auto simp add: base_dn_def py_get_def dn_map_def)
  from stage show "\<exists>base rest.
          base = (if tier = ''low'' then - 20 else if tier = ''mid'' then - 30 else - 40)
          \<and> vocal_filters fmt scene_mode voice_clarity_level deesser_on sound_field tier va
              = Inr ((''afftdn=nf=''
                      @ str_int (if v_noise_floor va > - 45 then base
                                 else if v_noise_floor va < - 55 then base + 10
                                 else base + 5)
                      @ '':nt=w,highpass=f=80'') # rest)"
    unfolding final_dn_def base by simp
qed

text \<open>
  The tier \<open>high\<close> at a noise floor of -38, of -60 and of -50: the strengths -40, -30
  and -35.
\<close>

theorem C6_noise_witness:
  "''high'' \<in> {''low'', ''mid'', ''high''}
   \<and> (\<exists>rest. vocal_filters str_float1 scene_speech 3 True sf_broadcast ''high'' sample_vocal
                = Inr (''afftdn=nf=-40:nt=w,highpass=f=80'' # rest))
   \<and> (\<exists>rest. vocal_filters str_float1 scene_speech 3 True sf_broadcast ''high''
                  (sample_vocal\<lparr>v_noise_floor := - 60\<rparr>)
                = Inr (''afftdn=nf=-30:nt=w,highpass=f=80'' # rest))
   \<and> (\<exists>rest. vocal_filters str_float1 scene_speech 3 True sf_broadcast ''high''
                  (sample_vocal\<lparr>v_noise_floor := - 50\<rparr>)
                = Inr (''afftdn=nf=-35:nt=w,highpass=f=80'' # rest))"
proof -
  have d: "str_int (- 40) = ''-40''" "str_int (- 30) = ''-30''" "str_int (- 35) = ''-35''"
    by code_simp+
  show ?thesis
    using C6_noise_stage [where tier = "''high''" and va = sample_vocal and fmt = str_float1
        and scene_mode = scene_speech and voice_clarity_level = 3 and deesser_on = True
        and sound_field = sf_broadcast]
      C6_noise_stage [where tier = "''high''" and va = "sample_vocal\<lparr>v_noise_floor := - 60\<rparr>"
        and fmt = str_float1 and scene_mode = scene_speech and voice_clarity_level = 3
        and deesser_on = True and sound_field = sf_broadcast]
      C6_noise_stage [where tier = "''high''" and va = "sample_vocal\<lparr>v_noise_floor := - 50\<rparr>"
        and fmt = str_float1 and scene_mode = scene_speech and voice_clarity_level = 3
        and deesser_on = True and sound_field = sf_broadcast]
    by (simp add: sample_vocal_def d)
qed

text \<open>
  The statement of the specification fails on \<open>build_professional_filter_chain\<close>: the tier \<open>high\<close>
  gets a high-pass corner of 200 Hz at a noise floor of -30 and of -60 alike, the tier
  \<open>low\<close> one of 100 Hz.
\<close>

theorem C6_noise_counterexample:
  "(\<exists>rest. professional_filters str_float1 preset_general 3 3 0 ''high''
              (sample_analysis\<lparr>noise_floor := - 30\<rparr>)
            = Inr (''highpass=f=200,lowpass=f=10000'' # rest))
   \<and> (\<exists>rest. professional_filters str_float1 preset_general 3 3 0 ''high''
              (sample_analysis\<lparr>noise_floor := - 60\<rparr>)
            = Inr (''highpass=f=200,lowpass=f=10000'' # rest))
   \<and> (\<exists>rest. professional_filters str_float1 preset_general 3 3 0 ''low''
              (sample_analysis\<lparr>noise_floor := - 60\<rparr>)
            = Inr (''highpass=f=100,lowpass=f=14000'' # rest))
   \<and> ''highpass=f=200,lowpass=f=10000'' \<noteq> ''highpass=f=100,lowpass=f=14000''"
  by (simp add: professional_filters_def Let_def nr_filter_def py_get_def nr_map_def
      nr_light_def nr_medium_def nr_heavy_def)

text \<open>
  C7, as the code has it. The target is the input loudness plus 8 when the input is below
  -26 LUFS and -16 otherwise; it exceeds the input loudness by 8 in the first case, by
  \<open>-16 - input\<close> in the second, and so by at most 10.
\<close>

theorem C7_adaptive_target:
  "get_adaptive_loudnorm fmt input_lufs =
     ''loudnorm=I='' @ fmt (if input_lufs < - 26 then input_lufs + 8 else - 16)
     @ '':LRA=11:TP=-1.5''
   \<and> adaptive_target_lufs input_lufs - input_lufs
       = (if input_lufs < - 26 then 8 else - 16 - input_lufs)
   \<and> adaptive_target_lufs input_lufs - input_lufs \<le> 10"
  by (simp add: get_adaptive_loudnorm_def adaptive_target_lufs_def TARGET_LUFS_def Let_def)

text \<open>
  An input of -25 LUFS is not more than 10 below the target, keeps the target -16 and is
  raised by 9: more than 8.
\<close>

theorem C7_boost_counterexample:
  "adaptive_target_lufs (- 25) = - 16
   \<and> adaptive_target_lufs (- 25) - (- 25) = 9
   \<and> \<not> adaptive_target_lufs (- 25) \<le> - 25 + 8"
  by (simp add: adaptive_target_lufs_def TARGET_LUFS_def Let_def)

lemma final_dn_scenario1: "final_dn ''mid'' (- 38) = - 30"
  by (simp add: final_dn_def base_dn_tiers)

subsection \<open>The engine runs and the analysis\<close>

lemma remove_if_exists_files:
  "fst (remove_if_exists p w) \<Longrightarrow> files (snd (remove_if_exists p w)) p = None"
  by (simp add: remove_if_exists_def os_remove_def os_path_exists_def
      split: list.splits if_splits)

lemma remove_if_exists_refused:
  "\<not> fst (remove_if_exists p w) \<Longrightarrow> files (snd (remove_if_exists p w)) p = files w p"
  by (simp add: remove_if_exists_def os_remove_def split: list.splits if_splits)

text \<open>
  The ways in which the body of \<open>_professional_process_safe\<close> and the body of
  \<open>ProcessingThread._process\<close> end: \<open>OSError\<close> is not among them.
\<close>

lemma professional_process_try_outcomes:
  "fst (professional_process_try lib ffmpeg input_path filter_chain output_params w)
     \<in> {Inl SubprocessError, Inl (Exception msg_pre_invalid), Inl (Exception msg_out_invalid),
         Inr (professional_output_path lib input_path output_params)}
         \<union> {Inl (Exception (msg_pre_failed @ t)) | t. True}
         \<union> {Inl (Exception (msg_enc_failed @ t)) | t. True}"
  by (auto simp add: professional_process_try_def Let_def case_prod_beta
      split: proc_result.splits)

lemma professional_process_try_no_OSError:
  "fst (professional_process_try lib ffmpeg input_path filter_chain output_params w)
     \<noteq> Inl OSError"
  by (auto simp add: professional_process_try_def Let_def case_prod_beta
      split: proc_result.splits)

lemma bgm_process_try_no_OSError:
  "fst (bgm_process_try lib ffmpeg input_path filter_chain output_params w) \<noteq> Inl OSError"
  by (auto simp add: bgm_process_try_def Let_def case_prod_beta split: proc_result.splits)

text \<open>
  C5, as the code has it. After \<open>_professional_process_safe\<close> and after
  \<open>ProcessingThread._process\<close> the scratch WAV file is not on disk, whatever the engine
  answered and whichever way the body left (a return, an exception of the first or second
  run, a missing or small file), unless the function is left by the \<open>OSError\<close> of one of
  its own calls of \<open>os.remove\<close>.
\<close>

theorem C5_scratch_file_removed:
  "(fst (professional_process_safe lib ffmpeg input_path filter_chain output_params w)
      \<noteq> Inl OSError
    \<longrightarrow> files (snd (professional_process_safe lib ffmpeg input_path filter_chain
                        output_params w))
          (professional_temp_wav lib input_path) = None)
   \<and> (fst (bgm_process lib ffmpeg input_path filter_chain' output_params' w') \<noteq> Inl OSError
      \<longrightarrow> files (snd (bgm_process lib ffmpeg input_path filter_chain' output_params' w'))
            (bgm_temp_wav lib input_path) = None)"
proof (intro conjI impI)
  let ?t = "professional_temp_wav lib input_path"
  let ?o = "professional_output_path lib input_path output_params"
  let ?wa = "snd (remove_if_exists ?t w)"
  let ?wb = "snd (remove_if_exists ?o ?wa)"
  let ?w1 = "snd (professional_process_try lib ffmpeg input_path filter_chain output_params
                    ?wb)"
  assume ok: "fst (professional_process_safe lib ffmpeg input_path filter_chain
                     output_params w) \<noteq> Inl OSError"
  have a: "fst (remove_if_exists ?t w)"
    using ok
    by (auto simp add: professional_process_safe_def Let_def case_prod_beta
        split: if_splits)
  have b: "fst (remove_if_exists ?o ?wa)"
    using ok a
    by (auto simp add: professional_process_safe_def Let_def case_prod_beta
        split: if_splits)
  have c: "fst (remove_if_exists ?t ?w1)"
    using ok a b
    by (auto simp add: professional_process_safe_def Let_def case_prod_beta
        split: if_splits)
  have "snd (professional_process_safe lib ffmpeg input_path filter_chain output_params w)
          = snd (remove_if_exists ?t ?w1)"
    using a b by (simp add: professional_process_safe_def Let_def case_prod_beta)
  then show "files (snd (professional_process_safe lib ffmpeg input_path filter_chain
                        output_params w)) ?t = None"
    using remove_if_exists_files [OF c] by simp
next
  let ?t = "bgm_temp_wav lib input_path"
  let ?w1 = "snd (bgm_process_try lib ffmpeg input_path filter_chain' output_params' w')"
  assume ok: "fst (bgm_process lib ffmpeg input_path filter_chain' output_params' w')
                \<noteq> Inl OSError"
  have c: "fst (remove_if_exists ?t ?w1)"
    using ok by (auto simp add: bgm_process_def Let_def case_prod_beta split: if_splits)
  have "snd (bgm_process lib ffmpeg input_path filter_chain' output_params' w')
          = snd (remove_if_exists ?t ?w1)"
    by (simp add: bgm_process_def Let_def case_prod_beta)
  then show "files (snd (bgm_process lib ffmpeg input_path filter_chain' output_params' w'))
               ?t = None"
    using remove_if_exists_files [OF c] by simp
qed

text \<open>
  Two runs that end in an exception of the body: the first engine run of the dubbing
  enhancer leaves a scratch file of 500 bytes, the first engine run of the
  background-music tool fails after writing 44 bytes. Both functions raise the exception
  of the body, and the scratch file is gone.
\<close>

theorem C5_scratch_file_witness:
  "fst (professional_process_safe sample_lib ''ffmpeg'' ''voice.mp3'' ''anull''
          (get_professional_output_params sample_analysis) world_small_temp)
     = Inl (Exception msg_pre_invalid)
   \<and> files (snd (professional_process_safe sample_lib ''ffmpeg'' ''voice.mp3'' ''anull''
          (get_professional_output_params sample_analysis) world_small_temp))
       (professional_temp_wav sample_lib ''voice.mp3'') = None
   \<and> fst (bgm_process sample_lib ''ffmpeg'' ''voice.mp3'' ''anull''
          (get_output_params str_float1 sample_bgm) world_bgm_failed)
     = Inl (Exception (msg_pre_failed @ ''Invalid argument''))
   \<and> files (snd (bgm_process sample_lib ''ffmpeg'' ''voice.mp3'' ''anull''
          (get_output_params str_float1 sample_bgm) world_bgm_failed))
       (bgm_temp_wav sample_lib ''voice.mp3'') = None"
proof -
  have r1: "fst (professional_process_safe sample_lib ''ffmpeg'' ''voice.mp3'' ''anull''
          (get_professional_output_params sample_analysis) world_small_temp)
     = Inl (Exception msg_pre_invalid)"
    by code_simp
  have r2: "fst (bgm_process sample_lib ''ffmpeg'' ''voice.mp3'' ''anull''
          (get_output_params str_float1 sample_bgm) world_bgm_failed)
     = Inl (Exception (msg_pre_failed @ ''Invalid argument''))"
    by code_simp
  show ?thesis
    using C5_scratch_file_removed [of sample_lib "''ffmpeg''" "''voice.mp3''" "''anull''"
        "get_professional_output_params sample_analysis" world_small_temp "''anull''"
        "get_output_params str_float1 sample_bgm" world_bgm_failed]
    by (simp add: r1 r2)
qed

text \<open>
  The statement of the specification fails: the first engine run leaves a scratch file of
  500 bytes, the body raises, and the removal in the \<open>finally\<close> clause is refused. Both
  functions are left by \<open>OSError\<close>, and the scratch file is still on disk.
\<close>

theorem C5_refused_removal_counterexample:
  "professional_temp_wav sample_lib ''voice.mp3'' = ''voice_professional_temp.wav''
   \<and> fst (professional_process_safe sample_lib ''ffmpeg'' ''voice.mp3'' ''anull''
          (get_professional_output_params sample_analysis) world_locked_temp)
     = Inl OSError
   \<and> files (snd (professional_process_safe sample_lib ''ffmpeg'' ''voice.mp3'' ''anull''
          (get_professional_output_params sample_analysis) world_locked_temp))
       ''voice_professional_temp.wav'' = Some 500
   \<and> bgm_temp_wav sample_lib ''voice.mp3'' = ''voice_bgm_temp.wav''
   \<and> fst (bgm_process sample_lib ''ffmpeg'' ''voice.mp3'' ''anull''
          (get_output_params str_float1 sample_bgm) (world_bgm_failed\<lparr>removals := [False]\<rparr>))
     = Inl OSError
   \<and> files (snd (bgm_process sample_lib ''ffmpeg'' ''voice.mp3'' ''anull''
          (get_output_params str_float1 sample_bgm) (world_bgm_failed\<lparr>removals := [False]\<rparr>)))
       ''voice_bgm_temp.wav'' = Some 44"
  by code_simp

text \<open>
  When the world refuses no removal, neither function is left by \<open>OSError\<close>, and a
  removal that is refused before the \<open>try\<close> statement ends the dubbing enhancer's
  function before the first engine run.
\<close>

lemma subprocess_run_removals: "removals (snd (subprocess_run cmd w)) = removals w"
  by (simp add: subprocess_run_def split: list.splits response.splits)

lemma remove_if_exists_allowed:
  "list_all id (removals w) \<Longrightarrow>
     fst (remove_if_exists p w) \<and> list_all id (removals (snd (remove_if_exists p w)))"
  by (auto simp add: remove_if_exists_def os_remove_def split: list.splits)

lemma professional_process_try_removals:
  "removals (snd (professional_process_try lib ffmpeg input_path filter_chain output_params w))
     = removals w"
  by (simp add: professional_process_try_def Let_def case_prod_beta subprocess_run_removals
      split: proc_result.splits)

lemma bgm_process_try_removals:
  "removals (snd (bgm_process_try lib ffmpeg input_path filter_chain output_params w))
     = removals w"
  by (simp add: bgm_process_try_def Let_def case_prod_beta subprocess_run_removals
      split: proc_result.splits)

lemma professional_process_safe_allowed:
  assumes "list_all id (removals w)"
  shows "fst (professional_process_safe lib ffmpeg input_path filter_chain output_params w)
           \<noteq> Inl OSError"
proof -
  let ?t = "professional_temp_wav lib input_path"
  let ?o = "professional_output_path lib input_path output_params"
  let ?wa = "snd (remove_if_exists ?t w)"
  let ?wb = "snd (remove_if_exists ?o ?wa)"
  let ?w1 = "snd (professional_process_try lib ffmpeg input_path filter_chain output_params
                    ?wb)"
  have a: "fst (remove_if_exists ?t w)" "list_all id (removals ?wa)"
    using remove_if_exists_allowed [OF assms] by simp_all
  have b: "fst (remove_if_exists ?o ?wa)" "list_all id (removals ?wb)"
    using remove_if_exists_allowed [OF a(2)] by simp_all
  have "list_all id (removals ?w1)"
    using b(2) by (simp add: professional_process_try_removals)
  then have c: "fst (remove_if_exists ?t ?w1)"
    using remove_if_exists_allowed by blast
  show ?thesis
    using a(1) b(1) c professional_process_try_no_OSError
    by (simp add: professional_process_safe_def Let_def case_prod_beta)
qed

lemma bgm_process_allowed:
  assumes "list_all id (removals w)"
  shows "fst (bgm_process lib ffmpeg input_path filter_chain output_params w) \<noteq> Inl OSError"
proof -
  have "list_all id (removals (snd (bgm_process_try lib ffmpeg input_path filter_chain
                                      output_params w)))"
    using assms by (simp add: bgm_process_try_removals)
  then have "fst (remove_if_exists (bgm_temp_wav lib input_path)
                    (snd (bgm_process_try lib ffmpeg input_path filter_chain
                            output_params w)))"
    using remove_if_exists_allowed by blast
  then show ?thesis
    using bgm_process_try_no_OSError
    by (simp add: bgm_process_def Let_def case_prod_beta)
qed

lemma subprocess_run_fst: "fst (subprocess_run cmd w) = next_result (script w)"
  by (simp add: subprocess_run_def next_result_def split: list.splits response.splits)

lemma subprocess_run_script: "script (snd (subprocess_run cmd w)) = tl (script w)"
  by (simp add: subprocess_run_def split: list.splits response.splits)

lemma subprocess_run_calls: "calls (snd (subprocess_run cmd w)) = calls w @ [cmd]"
  by (simp add: subprocess_run_def split: list.splits response.splits)

lemma measure_loudness_eq:
  "measure_loudness lib ffmpeg input_path w =
     (loudness_of_result lib (next_result (script w)),
      snd (subprocess_run (loudnorm_cmd ffmpeg input_path) w))"
  by (simp add: measure_loudness_def Let_def case_prod_beta subprocess_run_fst)

lemma get_volume_stats_eq:
  "get_volume_stats lib ffmpeg input_path w =
     (volume_stats_of_result lib (next_result (script w)),
      snd (subprocess_run (volumedetect_cmd ffmpeg input_path) w))"
  by (simp add: get_volume_stats_def Let_def case_prod_beta subprocess_run_fst)

lemma answer_0: "answer w 0 = next_result (script w)"
  by (simp add: answer_def)

lemma answer_Suc: "answer (snd (subprocess_run cmd w)) k = answer w (Suc k)"
  by (simp add: answer_def subprocess_run_script drop_Suc)

lemma analyze_audio_quality_completed:
  assumes "os_path_exists input_path w" and "answer w 0 = Completed rc err"
  shows "analyze_audio_quality lib ffmpeg input_path w =
           (Inr (analysis_of_answers lib input_path err (answer w 1) (answer w 2)
                   (answer w 3) (answer w 4)),
            after_analysis ffmpeg input_path w)"
proof -
  let ?w1 = "snd (subprocess_run (probe_cmd ffmpeg input_path) w)"
  let ?w2 = "snd (subprocess_run (loudnorm_cmd ffmpeg input_path) ?w1)"
  let ?w3 = "snd (subprocess_run (volumedetect_cmd ffmpeg input_path) ?w2)"
  let ?w4 = "snd (subprocess_run (volumedetect_cmd ffmpeg input_path) ?w3)"
  have r0: "fst (subprocess_run (probe_cmd ffmpeg input_path) w) = Completed rc err"
    using assms(2) by (simp add: subprocess_run_fst answer_0)
  have a1: "next_result (script ?w1) = answer w 1"
    using answer_Suc [of "probe_cmd ffmpeg input_path" w 0] by (simp add: answer_0)
  have a2: "next_result (script ?w2) = answer w 2"
    using answer_Suc [of "loudnorm_cmd ffmpeg input_path" ?w1 0]
      answer_Suc [of "probe_cmd ffmpeg input_path" w 1]
    by (simp add: answer_0 numeral_2_eq_2)
  have a3: "next_result (script ?w3) = answer w 3"
    using answer_Suc [of "volumedetect_cmd ffmpeg input_path" ?w2 0]
      answer_Suc [of "loudnorm_cmd ffmpeg input_path" ?w1 1]
      answer_Suc [of "probe_cmd ffmpeg input_path" w 2]
    by (simp add: answer_0 numeral_3_eq_3 numeral_2_eq_2)
  have a4: "next_result (script ?w4) = answer w 4"
    using answer_Suc [of "volumedetect_cmd ffmpeg input_path" ?w3 0]
      answer_Suc [of "volumedetect_cmd ffmpeg input_path" ?w2 1]
      answer_Suc [of "loudnorm_cmd ffmpeg input_path" ?w1 2]
      answer_Suc [of "probe_cmd ffmpeg input_path" w 3]
    by (simp add: answer_0 eval_nat_numeral)
  show ?thesis
    using assms(1) r0
    by (simp add: analyze_audio_quality_def Let_def case_prod_beta measure_loudness_eq analyze_dynamics_def detect_voice_characteristics_def
        calculate_perceived_loudness_def get_volume_stats_eq a1 a2 a3 a4
        analysis_of_answers_def after_analysis_def)
qed

lemma analyze_audio_quality_missing:
  "\<not> os_path_exists input_path w \<Longrightarrow>
   analyze_audio_quality lib ffmpeg input_path w
     = (Inl (FileNotFoundError (msg_file_missing @ input_path)), w)"
  by (simp add: analyze_audio_quality_def)

lemma analyze_audio_quality_raises:
  assumes "os_path_exists input_path w" and "answer w 0 = Raises e"
  shows "fst (analyze_audio_quality lib ffmpeg input_path w)
           = Inl (RuntimeError (msg_analysis_failed @ e))"
proof -
  have "fst (subprocess_run (probe_cmd ffmpeg input_path) w) = Raises e"
    using assms(2) by (simp add: subprocess_run_fst answer_0)
  then show ?thesis using assms(1)
    by (simp add: analyze_audio_quality_def Let_def case_prod_beta)
qed

lemma loudness_of_lines_fallback:
  "list_all (\<lambda>line. sublist ''Input Integrated Loudness'' line
                           \<longrightarrow> parse_loudness_line lib line = None) ls
   \<Longrightarrow> loudness_of_lines lib ls = - 20"
  by (induction ls) auto

lemma loudness_of_result_fallback:
  "loudness_pass_failed lib r \<Longrightarrow> loudness_of_result lib r = - 20"
  by (cases r) (simp_all add: loudness_pass_failed_def loudness_of_result_def
      loudness_of_lines_fallback)

lemma duration_line_fields:
  "bitrate (duration_line lib line a) = bitrate a
   \<and> sample_rate (duration_line lib line a) = sample_rate a
   \<and> channels (duration_line lib line a) = channels a
   \<and> is_lossless (duration_line lib line a) = is_lossless a"
  by (simp add: duration_line_def Let_def split: option.splits list.splits)

lemma audio_line_channels: "channels a = 2 \<Longrightarrow> channels (audio_line lib line a) = 2"
  by (simp add: audio_line_def Let_def split: option.splits)

lemma probe_line_channels: "channels a = 2 \<Longrightarrow> channels (probe_line lib a line) = 2"
  by (simp add: probe_line_def Let_def duration_line_fields audio_line_channels)

lemma probe_lines_channels: "channels a = 2 \<Longrightarrow> channels (foldl (probe_line lib) a ls) = 2"
  by (induction ls arbitrary: a) (simp_all add: probe_line_channels)

lemma probe_line_no_audio:
  "\<not> sublist ''Audio'' line \<Longrightarrow>
   bitrate (probe_line lib a line) = bitrate a
   \<and> sample_rate (probe_line lib a line) = sample_rate a
   \<and> is_lossless (probe_line lib a line) = is_lossless a"
  by (simp add: probe_line_def Let_def duration_line_fields)

lemma probe_lines_no_audio:
  "list_all (\<lambda>line. \<not> sublist ''Audio'' line) ls \<Longrightarrow>
   bitrate (foldl (probe_line lib) a ls) = bitrate a
   \<and> sample_rate (foldl (probe_line lib) a ls) = sample_rate a
   \<and> is_lossless (foldl (probe_line lib) a ls) = is_lossless a"
  by (induction ls arbitrary: a) (simp_all add: probe_line_no_audio)

lemma analysis_of_answers_fields:
  "loudness (analysis_of_answers lib p err r1 r2 r3 r4) = loudness_of_result lib r1"
  "dynamic_range (analysis_of_answers lib p err r1 r2 r3 r4)
     = \<bar>stat_max (volume_stats_of_result lib r2) - stat_min (volume_stats_of_result lib r2)\<bar>"
  "noise_floor (analysis_of_answers lib p err r1 r2 r3 r4)
     = stat_min (volume_stats_of_result lib r2)"
  "high_freq_energy (analysis_of_answers lib p err r1 r2 r3 r4)
     = stat_max (volume_stats_of_result lib r3)"
  "bitrate (analysis_of_answers lib p err r1 r2 r3 r4)
     = bitrate (foldl (probe_line lib) (initial_analysis lib p) (py_splitlines err))"
  "sample_rate (analysis_of_answers lib p err r1 r2 r3 r4)
     = sample_rate (foldl (probe_line lib) (initial_analysis lib p) (py_splitlines err))"
  "channels (analysis_of_answers lib p err r1 r2 r3 r4)
     = channels (foldl (probe_line lib) (initial_analysis lib p) (py_splitlines err))"
  "is_lossless (analysis_of_answers lib p err r1 r2 r3 r4)
     = is_lossless (foldl (probe_line lib) (initial_analysis lib p) (py_splitlines err))"
  by (simp_all add: analysis_of_answers_def Let_def)

lemma volume_stats_of_result_raises:
  "volume_stats_of_result lib (Raises e) = \<lparr>stat_max = - 10, stat_min = - 60, stat_mean = - 20\<rparr>"
  by (simp add: volume_stats_of_result_def default_volume_stats_def)

text \<open>
  C4, as the code has it. \<open>analyze_audio_quality\<close> raises \<open>FileNotFoundError\<close> when the
  input file does not exist and \<open>RuntimeError\<close> when the probe cannot be run; in every
  other case it returns a complete record, whatever the four later passes do. In that
  record the channel count is 2, the loudness is -20 when the loudness pass failed or
  gave no number, and bit rate, sample rate and losslessness are 192, 44100 and false when
  the probe printed no \<open>Audio\<close> line.
\<close>

theorem C4_extraction_outcomes:
  "(\<not> os_path_exists input_path w \<longrightarrow>
      fst (analyze_audio_quality lib ffmpeg input_path w)
        = Inl (FileNotFoundError (msg_file_missing @ input_path)))
   \<and> (os_path_exists input_path w \<and> answer w 0 = Raises e \<longrightarrow>
      fst (analyze_audio_quality lib ffmpeg input_path w)
        = Inl (RuntimeError (msg_analysis_failed @ e)))
   \<and> (os_path_exists input_path w \<and> answer w 0 = Completed rc err \<longrightarrow>
      (\<exists>a. fst (analyze_audio_quality lib ffmpeg input_path w) = Inr a
           \<and> channels a = 2
           \<and> (loudness_pass_failed lib (answer w 1) \<longrightarrow> loudness a = - 20)
           \<and> (probe_without_audio err \<longrightarrow>
                bitrate a = 192 \<and> sample_rate a = 44100 \<and> \<not> is_lossless a)))"
proof (intro conjI impI)
  assume "\<not> os_path_exists input_path w"
  then show "fst (analyze_audio_quality lib ffmpeg input_path w)
        = Inl (FileNotFoundError (msg_file_missing @ input_path))"
    by (simp add: analyze_audio_quality_missing)
next
  assume "os_path_exists input_path w \<and> answer w 0 = Raises e"
  then show "fst (analyze_audio_quality lib ffmpeg input_path w)
        = Inl (RuntimeError (msg_analysis_failed @ e))"
    by (simp add: analyze_audio_quality_raises)
next
  assume h: "os_path_exists input_path w \<and> answer w 0 = Completed rc err"
  let ?a = "analysis_of_answers lib input_path err (answer w 1) (answer w 2)
                   (answer w 3) (answer w 4)"
  have res: "fst (analyze_audio_quality lib ffmpeg input_path w) = Inr ?a"
    using h by (simp add: analyze_audio_quality_completed)
  have ch: "channels ?a = 2"
    by (simp add: analysis_of_answers_fields probe_lines_channels initial_analysis_def)
  have lo: "loudness_pass_failed lib (answer w 1) \<longrightarrow> loudness ?a = - 20"
    by (simp add: analysis_of_answers_fields loudness_of_result_fallback)
  have pr: "probe_without_audio err \<longrightarrow>
                bitrate ?a = 192 \<and> sample_rate ?a = 44100 \<and> \<not> is_lossless ?a"
    by (simp add: analysis_of_answers_fields probe_without_audio_def probe_lines_no_audio
        initial_analysis_def)
  from res ch lo pr
  show "\<exists>a. fst (analyze_audio_quality lib ffmpeg input_path w) = Inr a
           \<and> channels a = 2
           \<and> (loudness_pass_failed lib (answer w 1) \<longrightarrow> loudness a = - 20)
           \<and> (probe_without_audio err \<longrightarrow>
                bitrate a = 192 \<and> sample_rate a = 44100 \<and> \<not> is_lossless a)"
    by blast
qed

text \<open>
  The statement of the specification fails: the file exists and the engine cannot be started, and the
  extraction raises \<open>RuntimeError\<close>; the level pass times out, and the dynamic range of
  the record is 50 (from the fallback levels -10 and -60), not 12.
\<close>

theorem C4_extraction_counterexample:
  "os_path_exists ''voice.mp3'' world_no_engine
   \<and> fst (analyze_audio_quality sample_lib ''ffmpeg'' ''voice.mp3'' world_no_engine)
       = Inl (RuntimeError (msg_analysis_failed @ ''No such file or directory''))
   \<and> os_path_exists ''voice.mp3'' world_probe_only
   \<and> answer world_probe_only 2 = Raises ''timed out''
   \<and> fst (analyze_audio_quality sample_lib ''ffmpeg'' ''voice.mp3'' world_probe_only)
       = Inr \<lparr>format = ''.mp3'', is_lossless = False, bitrate = 192,
        sample_rate = 44100, channels = 2, duration = 0, loudness = - 20,
        dynamic_range = 50, noise_floor = - 60, gender = ''unknown'',
        high_freq_energy = - 10, volume_level = - 20, quality_score = 80\<rparr>"
  by code_simp

text \<open>
  The dynamic range after a failed level pass, in general: \<open>analyze_dynamics\<close> always
  overwrites the 12.0 of the initial dictionary, here with the distance of the fallback
  levels.
\<close>

lemma dynamic_range_fallback:
  assumes "os_path_exists input_path w" and "answer w 0 = Completed rc err"
    and "answer w 2 = Raises e"
  shows "\<exists>a. fst (analyze_audio_quality lib ffmpeg input_path w) = Inr a
             \<and> dynamic_range a = 50 \<and> noise_floor a = - 60"
  using assms
  by (simp add: analyze_audio_quality_completed analysis_of_answers_fields
      volume_stats_of_result_raises)

lemma remove_if_exists_calls: "calls (snd (remove_if_exists p w)) = calls w"
  by (simp add: remove_if_exists_def os_remove_def split: list.splits)

text \<open>
  Either a removal before the \<open>try\<close> statement is refused, and the function is left by
  \<open>OSError\<close> with no engine run, or the next engine run is the first run of the body.
\<close>

lemma professional_process_safe_first_call:
  "(fst (professional_process_safe lib ffmpeg input_path filter_chain output_params w)
      = Inl OSError
    \<and> calls (snd (professional_process_safe lib ffmpeg input_path filter_chain
                      output_params w)) = calls w)
   \<or> calls (snd (professional_process_safe lib ffmpeg input_path filter_chain
                     output_params w))
        ! length (calls w)
      = professional_pre_cmd lib ffmpeg input_path filter_chain output_params"
  by (simp add: professional_process_safe_def professional_process_try_def Let_def
      case_prod_beta remove_if_exists_calls subprocess_run_calls nth_append
      split: proc_result.splits)

lemma after_analysis_calls:
  "calls (after_analysis ffmpeg input_path w)
     = calls w @ [probe_cmd ffmpeg input_path, loudnorm_cmd ffmpeg input_path,
         volumedetect_cmd ffmpeg input_path, volumedetect_cmd ffmpeg input_path,
         volumedetect_cmd ffmpeg input_path]"
  by (simp add: after_analysis_def subprocess_run_calls)

lemma professional_filters_loudnorm:
  "professional_filters fmt preset vc wl ra nr a = Inr fs \<Longrightarrow> loudnorm_filter fmt a \<in> set fs"
  by (auto simp add: professional_filters_def Let_def split: sum.splits if_splits)

lemma loudnorm_in_chain:
  assumes "build_professional_filter_chain fmt preset vc wl ra nr a = Inr chain"
  shows "sublist (remove_newlines_spaces (loudnorm_filter fmt a)) chain"
proof -
  from assms obtain fs where fs: "professional_filters fmt preset vc wl ra nr a = Inr fs"
    and chain: "chain = remove_newlines_spaces (py_join '','' fs)"
    by (auto simp add: build_professional_filter_chain_def split: sum.splits)
  show ?thesis unfolding chain
    using professional_filters_loudnorm [OF fs]
    by (intro sublist_remove_newlines_spaces sublist_py_join)
qed

text \<open>
  C8, as the code has it. In the dubbing enhancer the loudness stage of the chain given to
  the first engine run carries \<open>measured_I\<close>, the loudness the second analysis call
  measured on the input file, \<open>measured_LRA\<close>, the distance of the largest and the
  smallest level the third call measured, and the constant \<open>measured_TP=-1.0\<close>. That
  engine run is the sixth call of the engine for the file; it is not reached only when the
  removal of an old file before it is refused, and then the run of the file ends in
  \<open>OSError\<close> after the five analysis calls. The background-music tool passes
  \<open>measured_I\<close> of its analysis record and nothing else.
\<close>

theorem C8_measured_values:
  "(os_path_exists input_path w \<and> answer w 0 = Completed rc err \<longrightarrow>
     (\<exists>a chain.
        fst (analyze_audio_quality lib ffmpeg input_path w) = Inr a
        \<and> loudness a = loudness_of_result lib (answer w 1)
        \<and> dynamic_range a
            = \<bar>stat_max (volume_stats_of_result lib (answer w 2))
               - stat_min (volume_stats_of_result lib (answer w 2))\<bar>
        \<and> build_professional_filter_chain fmt preset voice_clarity warmth_level
             reverb_amount noise_reduction a = Inr chain
        \<and> sublist
             (remove_newlines_spaces
               (''loudnorm=I='' @ fmt (- 16) @ '':LRA=8:TP='' @ fmt (- 1)
                @ '':measured_I='' @ fmt (loudness a)
                @ '':measured_LRA='' @ fmt (dynamic_range a)
                @ '':measured_TP=-1.0''))
             chain
        \<and> ((fst (professional_run_file fmt lib ffmpeg preset voice_clarity
                     warmth_level reverb_amount noise_reduction input_path w) = Inl OSError
              \<and> length (calls (snd (professional_run_file fmt lib ffmpeg preset
                          voice_clarity warmth_level reverb_amount noise_reduction
                          input_path w)))
                  = length (calls w) + 5)
             \<or> calls (snd (professional_run_file fmt lib ffmpeg preset voice_clarity
                          warmth_level reverb_amount noise_reduction input_path w))
                  ! (length (calls w) + 5)
                 = professional_pre_cmd lib ffmpeg input_path chain
                     (get_professional_output_params a))))
   \<and> bo_loudnorm (get_output_params fmt ba)
       = ''loudnorm=I='' @ fmt (- 16) @ '':LRA=10:TP='' @ fmt (- 1.5)
         @ '':measured_I='' @ fmt (b_loudness ba)"
proof (intro conjI impI)
  assume h: "os_path_exists input_path w \<and> answer w 0 = Completed rc err"
  let ?a = "analysis_of_answers lib input_path err (answer w 1) (answer w 2)
                   (answer w 3) (answer w 4)"
  let ?w1 = "after_analysis ffmpeg input_path w"
  have an: "analyze_audio_quality lib ffmpeg input_path w = (Inr ?a, ?w1)"
    using h by (simp add: analyze_audio_quality_completed)
  obtain chain where chain: "build_professional_filter_chain fmt preset voice_clarity
      warmth_level reverb_amount noise_reduction ?a = Inr chain"
    using build_professional_filter_chain_total by blast
  have run: "professional_run_file fmt lib ffmpeg preset voice_clarity warmth_level
        reverb_amount noise_reduction input_path w
      = professional_process_safe lib ffmpeg input_path chain
          (get_professional_output_params ?a) ?w1"
    using chain by (simp add: professional_run_file_def an)
  have len: "length (calls ?w1) = length (calls w) + 5"
    by (simp add: after_analysis_calls)
  have cmd: "(fst (professional_run_file fmt lib ffmpeg preset voice_clarity
                     warmth_level reverb_amount noise_reduction input_path w) = Inl OSError
              \<and> length (calls (snd (professional_run_file fmt lib ffmpeg preset
                          voice_clarity warmth_level reverb_amount noise_reduction
                          input_path w)))
                  = length (calls w) + 5)
             \<or> calls (snd (professional_run_file fmt lib ffmpeg preset voice_clarity
                          warmth_level reverb_amount noise_reduction input_path w))
                  ! (length (calls w) + 5)
                 = professional_pre_cmd lib ffmpeg input_path chain
                     (get_professional_output_params ?a)"
    unfolding run len [symmetric]
    using professional_process_safe_first_call [of lib ffmpeg input_path chain
        "get_professional_output_params ?a" ?w1]
    by auto
  have sub: "sublist
             (remove_newlines_spaces
               (''loudnorm=I='' @ fmt (- 16) @ '':LRA=8:TP='' @ fmt (- 1)
                @ '':measured_I='' @ fmt (loudness ?a)
                @ '':measured_LRA='' @ fmt (dynamic_range ?a)
                @ '':measured_TP=-1.0''))
             chain"
    using loudnorm_in_chain [OF chain]
    by (simp add: loudnorm_filter_def TARGET_LUFS_def PEAK_THRESHOLD_def)
  have f1: "loudness ?a = loudness_of_result lib (answer w 1)"
    and f2: "dynamic_range ?a
            = \<bar>stat_max (volume_stats_of_result lib (answer w 2))
               - stat_min (volume_stats_of_result lib (answer w 2))\<bar>"
    by (simp_all add: analysis_of_answers_fields)
  have res: "fst (analyze_audio_quality lib ffmpeg input_path w) = Inr ?a"
    by (simp add: an)
  from res f1 f2 chain sub cmd
  show "\<exists>a chain.
        fst (analyze_audio_quality lib ffmpeg input_path w) = Inr a
        \<and> loudness a = loudness_of_result lib (answer w 1)
        \<and> dynamic_range a
            = \<bar>stat_max (volume_stats_of_result lib (answer w 2))
               - stat_min (volume_stats_of_result lib (answer w 2))\<bar>
        \<and> build_professional_filter_chain fmt preset voice_clarity warmth_level
             reverb_amount noise_reduction a = Inr chain
        \<and> sublist
             (remove_newlines_spaces
               (''loudnorm=I='' @ fmt (- 16) @ '':LRA=8:TP='' @ fmt (- 1)
                @ '':measured_I='' @ fmt (loudness a)
                @ '':measured_LRA='' @ fmt (dynamic_range a)
                @ '':measured_TP=-1.0''))
             chain
        \<and> ((fst (professional_run_file fmt lib ffmpeg preset voice_clarity
                     warmth_level reverb_amount noise_reduction input_path w) = Inl OSError
              \<and> length (calls (snd (professional_run_file fmt lib ffmpeg preset
                          voice_clarity warmth_level reverb_amount noise_reduction
                          input_path w)))
                  = length (calls w) + 5)
             \<or> calls (snd (professional_run_file fmt lib ffmpeg preset voice_clarity
                          warmth_level reverb_amount noise_reduction input_path w))
                  ! (length (calls w) + 5)
                 = professional_pre_cmd lib ffmpeg input_path chain
                     (get_professional_output_params a))"
    by blast
next
  show "bo_loudnorm (get_output_params fmt ba)
       = ''loudnorm=I='' @ fmt (- 16) @ '':LRA=10:TP='' @ fmt (- 1.5)
         @ '':measured_I='' @ fmt (b_loudness ba)"
    by (simp add: get_output_params_def Let_def TARGET_LUFS_def PEAK_THRESHOLD_bgm_def
        LRA_bgm_def str_int_def str_digits.simps)
qed

text \<open>The two chains for the sample inputs, written out.\<close>

theorem C10_weights_witness:
  "build_processing_chain str_float1 True sf_wide True sample_bgm = Inr sample_bgm_chain
   \<and> sublist ''amix=inputs=3:weights=1.11.00.9'' sample_bgm_chain
   \<and> \<not> sublist ''weights=1.1 1.0 0.9'' sample_bgm_chain
   \<and> build_vocal_filter_chain str_float1 scene_speech 3 True sf_broadcast nr_medium
         sample_vocal = Inr sample_vocal_chain
   \<and> sublist ''amix=inputs=3:weights=1.11.00.9'' sample_vocal_chain
   \<and> \<not> sublist ''weights=1.1 1.0 0.9'' sample_vocal_chain"
proof -
  have h1: "build_processing_chain str_float1 True sf_wide True sample_bgm
              = Inr sample_bgm_chain"
    by code_simp
  have h2: "build_vocal_filter_chain str_float1 scene_speech 3 True sf_broadcast nr_medium
              sample_vocal = Inr sample_vocal_chain"
    by code_simp
  from C10_weights_concatenated [where fmt = str_float1 and sound_field = sf_wide and avoid_vocal = True
      and a = sample_bgm and chain = sample_bgm_chain and scene_mode = scene_speech
      and voice_clarity_level = 3 and deesser_on = True and sound_field' = sf_broadcast
      and denoise_level = nr_medium and va = sample_vocal and chain' = sample_vocal_chain]
    h1 h2
  show ?thesis by blast
qed

lemma build_professional_filter_chain_clean:
  "build_professional_filter_chain fmt preset vc wl ra nr a = Inr chain \<Longrightarrow>
   CHR '' '' \<notin> set chain \<and> CHR 0x0A \<notin> set chain"
  using remove_newlines_spaces_clean
  by (auto simp add: build_professional_filter_chain_def split: sum.splits)

lemma build_vocal_filter_chain_clean:
  "build_vocal_filter_chain fmt scene lvl de sf dn a = Inr chain \<Longrightarrow>
   CHR '' '' \<notin> set chain \<and> CHR 0x0A \<notin> set chain"
  using remove_newlines_spaces_clean
  by (auto simp add: build_vocal_filter_chain_def split: sum.splits)

lemma build_processing_chain_clean:
  "build_processing_chain fmt uc sf av a = Inr chain \<Longrightarrow>
   CHR '' '' \<notin> set chain \<and> CHR 0x0A \<notin> set chain"
  using remove_newlines_spaces_clean
  by (auto simp add: build_processing_chain_def split: sum.splits)

text \<open>
  C3 fails on the smart compressor: \<open>_process_audio\<close> joins its stages and gives the text
  to the engine as it is, and with smart compression the text keeps the two spaces of
  \<open>weights=1.2 1 0.8\<close>. The three builders above do remove them.
\<close>

theorem C3_mastering_chain_has_spaces:
  "pre_filter_complex pan_default True 2000 (- 6)
     (fst (mastering_choose_filters str_float1 True True 2000 (- 6) 17.5 30 500 (- 20)))
     = Inr sample_mastering_chain
   \<and> CHR '' '' \<in> set sample_mastering_chain
   \<and> sublist ''amix=inputs=3:weights=1.2 1 0.8'' sample_mastering_chain"
  by code_simp

text \<open>A missing file, an engine that cannot be started, and a probe that says nothing.\<close>

theorem C4_extraction_witness:
  "\<not> os_path_exists ''other.mp3'' world_probe_only
   \<and> fst (analyze_audio_quality sample_lib ''ffmpeg'' ''other.mp3'' world_probe_only)
       = Inl (FileNotFoundError (msg_file_missing @ ''other.mp3''))
   \<and> os_path_exists ''voice.mp3'' world_no_engine
   \<and> answer world_no_engine 0 = Raises ''No such file or directory''
   \<and> fst (analyze_audio_quality sample_lib ''ffmpeg'' ''voice.mp3'' world_no_engine)
       = Inl (RuntimeError (msg_analysis_failed @ ''No such file or directory''))
   \<and> os_path_exists ''voice.mp3'' world_probe_only
   \<and> answer world_probe_only 0 = Completed 1 []
   \<and> loudness_pass_failed sample_lib (answer world_probe_only 1)
   \<and> probe_without_audio []
   \<and> (\<exists>a. fst (analyze_audio_quality sample_lib ''ffmpeg'' ''voice.mp3'' world_probe_only)
             = Inr a
          \<and> channels a = 2 \<and> loudness a = - 20
          \<and> bitrate a = 192 \<and> sample_rate a = 44100 \<and> \<not> is_lossless a)"
proof -
  have h1: "\<not> os_path_exists ''other.mp3'' world_probe_only" by code_simp
  have h2: "os_path_exists ''voice.mp3'' world_no_engine" by code_simp
  have h3: "answer world_no_engine 0 = Raises ''No such file or directory''" by code_simp
  have h4: "os_path_exists ''voice.mp3'' world_probe_only" by code_simp
  have h5: "answer world_probe_only 0 = Completed 1 []" by code_simp
  have h6: "loudness_pass_failed sample_lib (answer world_probe_only 1)" by code_simp
  have h7: "probe_without_audio []" by code_simp
  from C4_extraction_outcomes [where input_path = "''other.mp3''" and w = world_probe_only
      and lib = sample_lib and ffmpeg = "''ffmpeg''"] h1
  have c1: "fst (analyze_audio_quality sample_lib ''ffmpeg'' ''other.mp3'' world_probe_only)
       = Inl (FileNotFoundError (msg_file_missing @ ''other.mp3''))"
    by blast
  from C4_extraction_outcomes [where input_path = "''voice.mp3''" and w = world_no_engine
      and lib = sample_lib and ffmpeg = "''ffmpeg''"
      and e = "''No such file or directory''"] h2 h3
  have c2: "fst (analyze_audio_quality sample_lib ''ffmpeg'' ''voice.mp3'' world_no_engine)
       = Inl (RuntimeError (msg_analysis_failed @ ''No such file or directory''))"
    by blast
  from C4_extraction_outcomes [where input_path = "''voice.mp3''" and w = world_probe_only
      and lib = sample_lib and ffmpeg = "''ffmpeg''" and rc = 1 and err = "[]"] h4 h5 h6 h7
  have c3: "\<exists>a. fst (analyze_audio_quality sample_lib ''ffmpeg'' ''voice.mp3''
                    world_probe_only) = Inr a
          \<and> channels a = 2 \<and> loudness a = - 20
          \<and> bitrate a = 192 \<and> sample_rate a = 44100 \<and> \<not> is_lossless a"
    by blast
  from h1 h2 h3 h4 h5 h6 h7 c1 c2 c3 show ?thesis by blast
qed

lemma world_ok_exists: "os_path_exists ''voice.mp3'' world_ok"
  by code_simp

lemma world_ok_probe: "answer world_ok 0 = Completed 1 sample_probe_text"
  by code_simp

text \<open>The run on the sample world in which every call answers.\<close>

theorem C8_measured_witness:
  "os_path_exists ''voice.mp3'' world_ok
   \<and> answer world_ok 0 = Completed 1 sample_probe_text
   \<and> (\<exists>a chain.
        fst (analyze_audio_quality sample_lib ''ffmpeg'' ''voice.mp3'' world_ok) = Inr a
        \<and> loudness a = loudness_of_result sample_lib (answer world_ok 1)
        \<and> dynamic_range a
            = \<bar>stat_max (volume_stats_of_result sample_lib (answer world_ok 2))
               - stat_min (volume_stats_of_result sample_lib (answer world_ok 2))\<bar>
        \<and> build_professional_filter_chain str_float1 preset_general 3 3 2 nr_medium a
            = Inr chain
        \<and> sublist
             (remove_newlines_spaces
               (''loudnorm=I='' @ str_float1 (- 16) @ '':LRA=8:TP='' @ str_float1 (- 1)
                @ '':measured_I='' @ str_float1 (loudness a)
                @ '':measured_LRA='' @ str_float1 (dynamic_range a)
                @ '':measured_TP=-1.0''))
             chain
        \<and> calls (snd (professional_run_file str_float1 sample_lib ''ffmpeg'' preset_general
                          3 3 2 nr_medium ''voice.mp3'' world_ok))
             ! (length (calls world_ok) + 5)
            = professional_pre_cmd sample_lib ''ffmpeg'' ''voice.mp3'' chain
                (get_professional_output_params a))"
proof -
  have "fst (professional_run_file str_float1 sample_lib ''ffmpeg'' preset_general 3 3 2
               nr_medium ''voice.mp3'' world_ok)
          = Inr (''voice'' @ sfx_pro @ ''.mp3'')"
    by code_simp
  then have returned: "fst (professional_run_file str_float1 sample_lib ''ffmpeg''
                              preset_general 3 3 2 nr_medium ''voice.mp3'' world_ok)
                         \<noteq> Inl OSError"
    by simp
  from C8_measured_values [where input_path = "''voice.mp3''" and w = world_ok and rc = 1
      and err = sample_probe_text and lib = sample_lib and ffmpeg = "''ffmpeg''"
      and fmt = str_float1 and preset = preset_general and voice_clarity = 3
      and warmth_level = 3 and reverb_amount = 2 and noise_reduction = nr_medium]
    world_ok_exists world_ok_probe returned
  show ?thesis by blast
qed

text \<open>
  The statement of the specification fails: the analysis measures a largest level of -3.2 dB and the
  stage is given the true peak -1.0; the background-music tool gives neither a range nor
  a peak.
\<close>

theorem C8_true_peak_counterexample:
  "fst (analyze_audio_quality sample_lib ''ffmpeg'' ''voice.mp3'' world_ok) = Inr analysis_ok
   \<and> stat_max (volume_stats_of_result sample_lib (answer world_ok 2)) = - 3.2
   \<and> loudnorm_filter str_float1 analysis_ok
       = ''loudnorm=I=-16.0:LRA=8:TP=-1.0:measured_I=-23.5:measured_LRA=54.8:measured_TP=-1.0''
   \<and> bo_loudnorm (get_output_params str_float1 sample_bgm)
       = ''loudnorm=I=-16.0:LRA=10:TP=-1.5:measured_I=-20.0''"
  by code_simp

end
